theory Spec2Isabelle
  imports Main
begin

section \<open>Python values and exceptions\<close>

text \<open>
  The client moves JSON documents around: what \<^verbatim>\<open>r.json()\<close> returns, and the value kept in
  \<^verbatim>\<open>self.access_token\<close> (\<^verbatim>\<open>None\<close> by default, otherwise whatever the caller or the token
  endpoint supplied). \<open>JDict\<close> is a Python \<^verbatim>\<open>dict\<close> with string keys in insertion order;
  a key is looked up with \<open>map_of\<close>. JSON numbers with a fraction (Python floats) are
  not part of the model. A \<open>string\<close> stands for a Python \<^verbatim>\<open>str\<close> whose code points are
  below 256, one \<open>char\<close> per code point: keys, URLs, tokens and the texts the client
  itself builds. A \<^verbatim>\<open>str\<close> that a caller passes as a date can hold any character, and is a
  \<open>pystr\<close>, the list of its code points (what \<^verbatim>\<open>ord\<close> gives); \<open>ascii\<close> reads a \<open>string\<close>
  as one.
\<close>

type_synonym pystr = "int list"

definition ascii :: "string \<Rightarrow> pystr" where
  "ascii s = map of_char s"

datatype json =
    JNull
  | JBool bool
  | JInt int
  | JStr string
  | JList "json list"
  | JDict "(string \<times> json) list"

text \<open>The exceptions the two modules raise or let through.\<close>

datatype error =
    NotAuthenticatedError
  | MultipleIdError
  | HTTPError int
  | ConnectionError
  | JSONDecodeError
  | KeyError string
  | TypeError
  | ValueError
  | OverflowError

text \<open>Python truthiness, as tested by \<^verbatim>\<open>if not self.access_token\<close>.\<close>

fun truthy :: "json \<Rightarrow> bool" where
  "truthy JNull = False"
| "truthy (JBool b) = b"
| "truthy (JInt i) = (i \<noteq> 0)"
| "truthy (JStr s) = (s \<noteq> [])"
| "truthy (JList xs) = (xs \<noteq> [])"
| "truthy (JDict kvs) = (kvs \<noteq> [])"

text \<open>\<^verbatim>\<open>v[key]\<close> with a string key: only a dict supports it.\<close>

fun getitem :: "json \<Rightarrow> string \<Rightarrow> error + json" where
  "getitem (JDict kvs) k = (case map_of kvs k of None \<Rightarrow> Inl (KeyError k) | Some v \<Rightarrow> Inr v)"
| "getitem _ k = Inl TypeError"

text \<open>
  \<^verbatim>\<open>for x in v\<close>: a list yields its elements, a dict its keys, a string its characters,
  anything else is not iterable.
\<close>

fun iter :: "json \<Rightarrow> error + json list" where
  "iter (JList xs) = Inr xs"
| "iter (JDict kvs) = Inr (map (\<lambda>kv. JStr (fst kv)) kvs)"
| "iter (JStr s) = Inr (map (\<lambda>c. JStr [c]) s)"
| "iter _ = Inl TypeError"

text \<open>
  \<^verbatim>\<open>v == n\<close> for an integer \<open>n\<close>: Python's \<^verbatim>\<open>bool\<close> is a subclass of \<^verbatim>\<open>int\<close>, so
  \<^verbatim>\<open>True == 1\<close>; no other JSON value equals an integer.
\<close>

fun eq_int :: "json \<Rightarrow> int \<Rightarrow> bool" where
  "eq_int (JInt i) n = (i = n)"
| "eq_int (JBool b) n = ((if b then 1 else 0) = n)"
| "eq_int _ n = False"

text \<open>\<^verbatim>\<open>str(n)\<close> for an integer, used by \<^verbatim>\<open>'...{}'.format(n)\<close>.\<close>

definition digit_char :: "nat \<Rightarrow> char" where
  "digit_char n = char_of (48 + n)"

fun digits :: "nat \<Rightarrow> string" where
  "digits n = (if n < 10 then [digit_char n] else digits (n div 10) @ [digit_char (n mod 10)])"

declare digits.simps [simp del]

definition str_int :: "int \<Rightarrow> string" where
  "str_int i = (if i < 0 then CHR ''-'' # digits (nat (- i)) else digits (nat i))"

section \<open>The HTTP library\<close>

text \<open>
  A request as \<^verbatim>\<open>requests.get\<close>/\<^verbatim>\<open>requests.post\<close> receives it. \<open>authorization = Some t\<close>
  stands for the header \<^verbatim>\<open>{"Authorization": "Bearer {}".format(t)}\<close>, \<open>None\<close> for
  no header. A response is its status code and its body, \<open>None\<close> when the body is not a
  JSON document. The network is a function from requests to responses, or to the
  exception the transport raises.
\<close>

datatype http_method = GET | POST

record request =
  meth :: http_method
  url :: string
  form :: "(string \<times> string) list"
  params :: "(string \<times> pystr) list"
  authorization :: "json option"

record response =
  status_code :: int
  body :: "json option"

type_synonym network = "request \<Rightarrow> error + response"

text \<open>
  \<^verbatim>\<open>Response.raise_for_status()\<close> of the requests library raises \<^verbatim>\<open>HTTPError\<close> for a
  client error (400 to 499) or a server error (500 to 599) and returns otherwise.
\<close>

definition raise_for_status :: "response \<Rightarrow> error + unit" where
  "raise_for_status r =
     (if 400 \<le> status_code r \<and> status_code r < 600 then Inl (HTTPError (status_code r))
      else Inr ())"

text \<open>\<^verbatim>\<open>Response.json()\<close>.\<close>

definition response_json :: "response \<Rightarrow> error + json" where
  "response_json r = (case body r of None \<Rightarrow> Inl JSONDecodeError | Some j \<Rightarrow> Inr j)"

section \<open>The client\<close>

text \<open>
  \<^verbatim>\<open>class June\<close> has one attribute. An operation returns its result or the exception
  it raised, the client afterwards, and the requests it issued, in order.
\<close>

record june =
  access_token :: json

type_synonym 'a outcome = "(error + 'a) \<times> june \<times> request list"

definition URL :: string where
  "URL = ''https://api-portal.june.energy/''"

definition init :: "json \<Rightarrow> june" where
  "init token = \<lparr>access_token = token\<rparr>"

text \<open>The decorator \<^verbatim>\<open>authenticated\<close>, the same in both modules.\<close>

definition authenticated :: "(june \<Rightarrow> 'a outcome) \<Rightarrow> june \<Rightarrow> 'a outcome" where
  "authenticated func self =
     (if \<not> truthy (access_token self) then (Inl NotAuthenticatedError, self, [])
      else func self)"

definition authenticate :: "network \<Rightarrow> string \<Rightarrow> string \<Rightarrow> june \<Rightarrow> unit outcome" where
  "authenticate net username password self =
     (let auth_url = URL @ ''oauth/token'';
          data = [(''grant_type'', ''password''), (''username'', username),
                  (''password'', password)];
          req = \<lparr>meth = POST, url = auth_url, form = data, params = [], authorization = None\<rparr>
      in case net req of
           Inl e \<Rightarrow> (Inl e, self, [req])
         | Inr r \<Rightarrow>
            (case raise_for_status r of
               Inl e \<Rightarrow> (Inl e, self, [req])
             | Inr _ \<Rightarrow>
                (case response_json r of
                   Inl e \<Rightarrow> (Inl e, self, [req])
                 | Inr j \<Rightarrow>
                    (case getitem j ''access_token'' of
                       Inl e \<Rightarrow> (Inl e, self, [req])
                     | Inr t \<Rightarrow> (Inr (), self\<lparr>access_token := t\<rparr>, [req])))))"

definition get_contracts :: "network \<Rightarrow> june \<Rightarrow> json outcome" where
  "get_contracts net = authenticated (\<lambda>self.
     let contract_url = URL @ ''contracts'';
         req = \<lparr>meth = GET, url = contract_url, form = [], params = [],
                authorization = Some (access_token self)\<rparr>
     in case net req of
          Inl e \<Rightarrow> (Inl e, self, [req])
        | Inr r \<Rightarrow>
           (case raise_for_status r of
              Inl e \<Rightarrow> (Inl e, self, [req])
            | Inr _ \<Rightarrow> (response_json r, self, [req])))"

text \<open>The list comprehension \<^verbatim>\<open>[contract['id'] for contract in ...]\<close>: the first failing
  subscript ends it.\<close>

fun ids_of :: "json list \<Rightarrow> error + json list" where
  "ids_of [] = Inr []"
| "ids_of (contract # rest) =
     (case getitem contract ''id'' of
        Inl e \<Rightarrow> Inl e
      | Inr i \<Rightarrow> (case ids_of rest of Inl e \<Rightarrow> Inl e | Inr is \<Rightarrow> Inr (i # is)))"

definition get_contract_ids :: "network \<Rightarrow> june \<Rightarrow> json list outcome" where
  "get_contract_ids net self =
     (case get_contracts net self of
        (Inl e, self', reqs) \<Rightarrow> (Inl e, self', reqs)
      | (Inr contracts, self', reqs) \<Rightarrow>
         (case getitem contracts ''data'' of
            Inl e \<Rightarrow> (Inl e, self', reqs)
          | Inr d \<Rightarrow>
             (case iter d of
                Inl e \<Rightarrow> (Inl e, self', reqs)
              | Inr cs \<Rightarrow> (ids_of cs, self', reqs))))"

definition get_devices :: "network \<Rightarrow> int \<Rightarrow> june \<Rightarrow> json outcome" where
  "get_devices net contract_id = authenticated (\<lambda>self.
     let devices_url = URL @ ''contracts/'' @ str_int contract_id @ ''/devices'';
         req = \<lparr>meth = GET, url = devices_url, form = [], params = [],
                authorization = Some (access_token self)\<rparr>
     in case net req of
          Inl e \<Rightarrow> (Inl e, self, [req])
        | Inr r \<Rightarrow>
           (case raise_for_status r of
              Inl e \<Rightarrow> (Inl e, self, [req])
            | Inr _ \<Rightarrow> (response_json r, self, [req])))"

subsection \<open>The legacy module\<close>

definition legacy_authenticated :: "(june \<Rightarrow> 'a outcome) \<Rightarrow> june \<Rightarrow> 'a outcome" where
  "legacy_authenticated func self =
     (if \<not> truthy (access_token self) then (Inl NotAuthenticatedError, self, [])
      else func self)"

definition legacy_authenticate :: "network \<Rightarrow> string \<Rightarrow> string \<Rightarrow> june \<Rightarrow> unit outcome" where
  "legacy_authenticate net username password self =
     (let auth_url = URL @ ''oauth/token'';
          data = [(''grant_type'', ''password''), (''username'', username),
                  (''password'', password)];
          req = \<lparr>meth = POST, url = auth_url, form = data, params = [], authorization = None\<rparr>
      in case net req of
           Inl e \<Rightarrow> (Inl e, self, [req])
         | Inr r \<Rightarrow>
            (case raise_for_status r of
               Inl e \<Rightarrow> (Inl e, self, [req])
             | Inr _ \<Rightarrow>
                (case response_json r of
                   Inl e \<Rightarrow> (Inl e, self, [req])
                 | Inr j \<Rightarrow>
                    (case getitem j ''access_token'' of
                       Inl e \<Rightarrow> (Inl e, self, [req])
                     | Inr t \<Rightarrow> (Inr (), self\<lparr>access_token := t\<rparr>, [req])))))"

definition legacy_get_contracts :: "network \<Rightarrow> june \<Rightarrow> json outcome" where
  "legacy_get_contracts net = legacy_authenticated (\<lambda>self.
     let contract_url = URL @ ''contracts'';
         req = \<lparr>meth = GET, url = contract_url, form = [], params = [],
                authorization = Some (access_token self)\<rparr>
     in case net req of
          Inl e \<Rightarrow> (Inl e, self, [req])
        | Inr r \<Rightarrow>
           (case raise_for_status r of
              Inl e \<Rightarrow> (Inl e, self, [req])
            | Inr _ \<Rightarrow> (response_json r, self, [req])))"

definition get_ids :: "network \<Rightarrow> june \<Rightarrow> json list outcome" where
  "get_ids net self =
     (case legacy_get_contracts net self of
        (Inl e, self', reqs) \<Rightarrow> (Inl e, self', reqs)
      | (Inr contracts, self', reqs) \<Rightarrow>
         (case getitem contracts ''data'' of
            Inl e \<Rightarrow> (Inl e, self', reqs)
          | Inr d \<Rightarrow>
             (case iter d of
                Inl e \<Rightarrow> (Inl e, self', reqs)
              | Inr cs \<Rightarrow> (ids_of cs, self', reqs))))"

definition get_id :: "network \<Rightarrow> june \<Rightarrow> json outcome" where
  "get_id net self =
     (case get_ids net self of
        (Inl e, self', reqs) \<Rightarrow> (Inl e, self', reqs)
      | (Inr ids, self', reqs) \<Rightarrow>
         (if length ids = 1 then (Inr (ids ! 0), self', reqs)
          else (Inl MultipleIdError, self', reqs)))"

definition legacy_get_devices :: "network \<Rightarrow> int \<Rightarrow> june \<Rightarrow> json outcome" where
  "legacy_get_devices net id' = legacy_authenticated (\<lambda>self.
     let devices_url = URL @ ''devices/'' @ str_int id';
         req = \<lparr>meth = GET, url = devices_url, form = [], params = [],
                authorization = Some (access_token self)\<rparr>
     in case net req of
          Inl e \<Rightarrow> (Inl e, self, [req])
        | Inr r \<Rightarrow>
           (case raise_for_status r of
              Inl e \<Rightarrow> (Inl e, self, [req])
            | Inr _ \<Rightarrow> (response_json r, self, [req])))"

section \<open>Dates: the standard library\<close>

text \<open>
  \<^verbatim>\<open>datetime.date\<close> and \<^verbatim>\<open>datetime.datetime\<close> (a subclass of \<^verbatim>\<open>date\<close>). A \<^verbatim>\<open>timedelta\<close> is
  an exact number of microseconds; \<open>td_days\<close>, \<open>td_seconds\<close> and \<open>td_microseconds\<close> are
  its three normalised fields. A \<^verbatim>\<open>tzinfo\<close> is either the object \<^verbatim>\<open>pytz.UTC\<close> itself or
  another zone, given by the offset its \<^verbatim>\<open>utcoffset\<close> returns for the datetime at hand
  (zones whose \<^verbatim>\<open>utcoffset\<close> returns \<^verbatim>\<open>None\<close> are not part of the model).
\<close>

type_synonym timedelta = int

definition td_days :: "timedelta \<Rightarrow> int" where
  "td_days t = t div 86400000000"

definition td_seconds :: "timedelta \<Rightarrow> int" where
  "td_seconds t = (t div 1000000) mod 86400"

definition td_microseconds :: "timedelta \<Rightarrow> int" where
  "td_microseconds t = t mod 1000000"

definition timedelta :: "int \<Rightarrow> int \<Rightarrow> int \<Rightarrow> int \<Rightarrow> int \<Rightarrow> timedelta" where
  "timedelta days hours minutes seconds microseconds =
     (((days * 24 + hours) * 60 + minutes) * 60 + seconds) * 1000000 + microseconds"

datatype tzinfo = UTC | Zone timedelta

record date =
  year :: int
  month :: int
  day :: int

record datetime = date +
  hour :: int
  minute :: int
  second :: int
  microsecond :: int
  tzinfo :: "tzinfo option"

definition MAXORDINAL :: int where
  "MAXORDINAL = 3652059"

definition DAYS_IN_MONTH :: "int list" where
  "DAYS_IN_MONTH = [-1, 31, 28, 31, 30, 31, 30, 31, 31, 30, 31, 30, 31]"

definition DAYS_BEFORE_MONTH :: "int list" where
  "DAYS_BEFORE_MONTH = [-1, 0, 31, 59, 90, 120, 151, 181, 212, 243, 273, 304, 334]"

definition is_leap :: "int \<Rightarrow> bool" where
  "is_leap y = (y mod 4 = 0 \<and> (y mod 100 \<noteq> 0 \<or> y mod 400 = 0))"

definition days_before_year :: "int \<Rightarrow> int" where
  "days_before_year y' = (let y = y' - 1 in y * 365 + y div 4 - y div 100 + y div 400)"

definition days_in_month :: "int \<Rightarrow> int \<Rightarrow> int" where
  "days_in_month y m = (if m = 2 \<and> is_leap y then 29 else DAYS_IN_MONTH ! nat m)"

definition days_before_month :: "int \<Rightarrow> int \<Rightarrow> int" where
  "days_before_month y m = DAYS_BEFORE_MONTH ! nat m + (if m > 2 \<and> is_leap y then 1 else 0)"

definition ymd2ord :: "int \<Rightarrow> int \<Rightarrow> int \<Rightarrow> int" where
  "ymd2ord y m d = days_before_year y + days_before_month y m + d"

definition DI400Y :: int where "DI400Y = days_before_year 401"
definition DI100Y :: int where "DI100Y = days_before_year 101"
definition DI4Y :: int where "DI4Y = days_before_year 5"

definition ord2ymd :: "int \<Rightarrow> date" where
  "ord2ymd n0 =
     (let n = n0 - 1;
          n400 = n div DI400Y; n = n mod DI400Y;
          y = n400 * 400 + 1;
          n100 = n div DI100Y; n = n mod DI100Y;
          n4 = n div DI4Y; n = n mod DI4Y;
          n1 = n div 365; n = n mod 365;
          y = y + (n100 * 100 + n4 * 4 + n1)
      in if n1 = 4 \<or> n100 = 4 then \<lparr>year = y - 1, month = 12, day = 31\<rparr>
         else
           let leapyear = (n1 = 3 \<and> (n4 \<noteq> 24 \<or> n100 = 3));
               m = (n + 50) div 32;
               preceding = DAYS_BEFORE_MONTH ! nat m + (if m > 2 \<and> leapyear then 1 else 0)
           in if preceding > n then
                let m = m - 1;
                    preceding = preceding -
                      (DAYS_IN_MONTH ! nat m + (if m = 2 \<and> leapyear then 1 else 0))
                in \<lparr>year = y, month = m, day = n - preceding + 1\<rparr>
              else \<lparr>year = y, month = m, day = n - preceding + 1\<rparr>)"

text \<open>\<^verbatim>\<open>_check_date_fields\<close>: what the \<^verbatim>\<open>date\<close> constructor accepts.\<close>

definition check_date_fields :: "int \<Rightarrow> int \<Rightarrow> int \<Rightarrow> error + date" where
  "check_date_fields y m d =
     (if \<not> (1 \<le> y \<and> y \<le> 9999) then Inl ValueError
      else if \<not> (1 \<le> m \<and> m \<le> 12) then Inl ValueError
      else if \<not> (1 \<le> d \<and> d \<le> days_in_month y m) then Inl ValueError
      else Inr \<lparr>year = y, month = m, day = d\<rparr>)"

text \<open>\<^verbatim>\<open>datetime.__add__\<close> with a timedelta, and \<^verbatim>\<open>__sub__\<close>, which adds the negation.\<close>

definition datetime_add :: "datetime \<Rightarrow> timedelta \<Rightarrow> error + datetime" where
  "datetime_add self other =
     (let delta = timedelta (ymd2ord (year self) (month self) (day self))
                    (hour self) (minute self) (second self) (microsecond self) + other;
          h = td_seconds delta div 3600; rem = td_seconds delta mod 3600;
          mi = rem div 60; s = rem mod 60
      in if 0 < td_days delta \<and> td_days delta \<le> MAXORDINAL then
           let d = ord2ymd (td_days delta)
           in Inr \<lparr>year = year d, month = month d, day = day d, hour = h, minute = mi,
                   second = s, microsecond = td_microseconds delta, tzinfo = tzinfo self\<rparr>
         else Inl OverflowError)"

definition datetime_sub :: "datetime \<Rightarrow> timedelta \<Rightarrow> error + datetime" where
  "datetime_sub self other = datetime_add self (- other)"

text \<open>
  \<^verbatim>\<open>tz.utcoffset(dt)\<close> as \<^verbatim>\<open>astimezone\<close> calls it: an offset outside the open interval of
  plus and minus 24 hours is refused.
\<close>

definition utcoffset :: "tzinfo \<Rightarrow> error + timedelta" where
  "utcoffset tz =
     (case tz of
        UTC \<Rightarrow> Inr 0
      | Zone off \<Rightarrow>
         if - 86400000000 < off \<and> off < 86400000000 then Inr off else Inl ValueError)"

text \<open>
  \<^verbatim>\<open>self.astimezone(pytz.UTC)\<close> for a datetime whose \<^verbatim>\<open>tzinfo\<close> is \<open>mytz\<close>. Converting to
  the zone the datetime already carries returns it as it is; otherwise the offset is
  subtracted and \<^verbatim>\<open>pytz.UTC.fromutc\<close> adds UTC's zero offset.
\<close>

definition astimezone_UTC :: "datetime \<Rightarrow> tzinfo \<Rightarrow> error + datetime" where
  "astimezone_UTC self mytz =
     (case utcoffset mytz of
        Inl e \<Rightarrow> Inl e
      | Inr myoffset \<Rightarrow>
         if mytz = UTC then Inr self
         else (case datetime_sub self myoffset of
                 Inl e \<Rightarrow> Inl e
               | Inr utc \<Rightarrow> Inr (utc\<lparr>tzinfo := Some UTC\<rparr>)))"

text \<open>
  \<^verbatim>\<open>'%0nd' % i\<close> for a non-negative \<open>i\<close>, and \<^verbatim>\<open>strftime('%Y-%m-%d')\<close> as the C library of
  Linux prints it: the month and the day with two digits, the year \<^verbatim>\<open>%Y\<close> as the plain
  decimal number, so with fewer than four digits before the year 1000. (Other C libraries
  pad the year to four digits; from the year 1000 on they all print the same.)
\<close>

definition zero_pad :: "nat \<Rightarrow> int \<Rightarrow> string" where
  "zero_pad w i = (let s = str_int i in replicate (w - length s) CHR ''0'' @ s)"

definition strftime :: "int \<Rightarrow> int \<Rightarrow> int \<Rightarrow> pystr" where
  "strftime y m d = ascii (str_int y @ ''-'' @ zero_pad 2 m @ ''-'' @ zero_pad 2 d)"

subsection \<open>Decimal digits\<close>

text \<open>
  The decimal digits of Unicode 14.0, the character database of CPython 3.11, come in 66
  runs of ten consecutive code points, each run the digits 0 to 9 of one script.
  \<open>DECIMAL_ZEROS\<close> lists the zero of each run. The \<^verbatim>\<open>\d\<close> of the module \<^verbatim>\<open>re\<close> matches
  exactly these code points on a \<^verbatim>\<open>str\<close>, and \<^verbatim>\<open>int()\<close> reads each of them as its value.
\<close>

definition DECIMAL_ZEROS :: "int list" where
  "DECIMAL_ZEROS =
     [48, 1632, 1776, 1984, 2406, 2534, 2662, 2790, 2918, 3046, 3174, 3302, 3430, 3558,
      3664, 3792, 3872, 4160, 4240, 6112, 6160, 6470, 6608, 6784, 6800, 6992, 7088, 7232,
      7248, 42528, 43216, 43264, 43472, 43504, 43600, 44016, 65296, 66720, 68912, 69734,
      69872, 69942, 70096, 70384, 70736, 70864, 71248, 71360, 71472, 71904, 72016, 72784,
      73040, 73120, 92768, 92864, 93008, 120782, 120792, 120802, 120812, 120822, 123200,
      123632, 125264, 130032]"

definition decimal_zero :: "int \<Rightarrow> int option" where
  "decimal_zero c = find (\<lambda>z. z \<le> c \<and> c < z + 10) DECIMAL_ZEROS"

definition is_decimal :: "int \<Rightarrow> bool" where
  "is_decimal c = (decimal_zero c \<noteq> None)"

text \<open>The value of a decimal digit (\<open>0\<close> stands in for a code point that is none).\<close>

definition decimal_value :: "int \<Rightarrow> int" where
  "decimal_value c = (case decimal_zero c of None \<Rightarrow> 0 | Some z \<Rightarrow> c - z)"

subsection \<open>Parsing with the format \<^verbatim>\<open>%Y-%m-%d\<close>\<close>

text \<open>
  \<^verbatim>\<open>_strptime\<close> turns the format into a regular expression and matches it at the start
  of the string. \<open>rematch r s\<close> lists what is left of \<open>s\<close> after each way \<open>r\<close> matches a
  prefix, in the order a backtracking matcher tries them; the match Python reports is the
  first. \<open>Cls cs\<close> is a class of ASCII characters such as \<^verbatim>\<open>[0-2]\<close>, \<open>Digit\<close> is \<^verbatim>\<open>\d\<close>.
\<close>

datatype regex = Cls string | Digit | Cat regex regex | Alt regex regex

fun rematch :: "regex \<Rightarrow> pystr \<Rightarrow> pystr list" where
  "rematch (Cls cs) s =
     (case s of [] \<Rightarrow> [] | c # r \<Rightarrow> if c \<in> set (ascii cs) then [r] else [])"
| "rematch Digit s = (case s of [] \<Rightarrow> [] | c # r \<Rightarrow> if is_decimal c then [r] else [])"
| "rematch (Cat a b) s = concat (map (rematch b) (rematch a s))"
| "rematch (Alt a b) s = rematch a s @ rematch b s"

definition re_digit :: regex where
  "re_digit = Digit"

definition re_1to9 :: regex where
  "re_1to9 = Cls ''123456789''"

text \<open>\<^verbatim>\<open>(?P<Y>\d\d\d\d)\<close>\<close>

definition re_Y :: regex where
  "re_Y = Cat re_digit (Cat re_digit (Cat re_digit re_digit))"

text \<open>\<^verbatim>\<open>(?P<m>1[0-2]|0[1-9]|[1-9])\<close>\<close>

definition re_m :: regex where
  "re_m = Alt (Cat (Cls ''1'') (Cls ''012'')) (Alt (Cat (Cls ''0'') re_1to9) re_1to9)"

text \<open>\<^verbatim>\<open>(?P<d>3[0-1]|[1-2]\d|0[1-9]|[1-9]| [1-9])\<close>\<close>

definition re_d :: regex where
  "re_d = Alt (Cat (Cls ''3'') (Cls ''01''))
         (Alt (Cat (Cls ''12'') re_digit)
         (Alt (Cat (Cls ''0'') re_1to9)
         (Alt re_1to9 (Cat (Cls '' '') re_1to9))))"

text \<open>The text a group matched: what was consumed between \<open>s\<close> and the rest \<open>r\<close>.\<close>

definition consumed :: "pystr \<Rightarrow> pystr \<Rightarrow> pystr" where
  "consumed s r = take (length s - length r) s"

text \<open>Every match of the whole pattern: the three groups and the unconverted rest.\<close>

definition matches_ymd :: "pystr \<Rightarrow> (pystr \<times> pystr \<times> pystr \<times> pystr) list" where
  "matches_ymd s =
     concat (map (\<lambda>r1.
       concat (map (\<lambda>r2.
         concat (map (\<lambda>r3.
           concat (map (\<lambda>r4.
             map (\<lambda>r5. (consumed s r1, consumed r2 r3, consumed r4 r5, r5))
               (rematch re_d r4))
             (rematch (Cls ''-'') r3)))
           (rematch re_m r2)))
         (rematch (Cls ''-'') r1)))
       (rematch re_Y s))"

text \<open>
  \<^verbatim>\<open>int(s)\<close> on a group: the decimal number its digits write, after blanks are stripped.
  A group holds nothing but digits and at most a leading blank, so \<^verbatim>\<open>int\<close> cannot fail.
\<close>

definition int_of_group :: "pystr \<Rightarrow> int" where
  "int_of_group s =
     foldl (\<lambda>n c. 10 * n + decimal_value c) 0 (dropWhile (\<lambda>c. c = of_char CHR '' '') s)"

definition strptime :: "pystr \<Rightarrow> error + date" where
  "strptime data_string =
     (case matches_ymd data_string of
        [] \<Rightarrow> Inl ValueError
      | (Y, m, d, rest) # _ \<Rightarrow>
         if rest \<noteq> [] then Inl ValueError
         else check_date_fields (int_of_group Y) (int_of_group m) (int_of_group d))"

section \<open>Date coercion, measurements and device lifetimes\<close>

datatype date_obj = Str pystr | Date date | Datetime datetime

definition to_date :: "date_obj \<Rightarrow> error + pystr" where
  "to_date date_obj =
     (case date_obj of
        Str s \<Rightarrow> (case strptime s of Inl e \<Rightarrow> Inl e | Inr _ \<Rightarrow> Inr s)
      | Date d \<Rightarrow> Inr (strftime (year d) (month d) (day d))
      | Datetime d \<Rightarrow>
         (case tzinfo d of
            None \<Rightarrow> Inr (strftime (year d) (month d) (day d))
          | Some mytz \<Rightarrow>
             (case astimezone_UTC d mytz of
                Inl e \<Rightarrow> Inl e
              | Inr u \<Rightarrow> Inr (strftime (year u) (month u) (day u)))))"

definition get_measurements ::
  "network \<Rightarrow> int \<Rightarrow> int \<Rightarrow> date_obj \<Rightarrow> date_obj \<Rightarrow> june \<Rightarrow> json outcome" where
  "get_measurements net device_id period start end' = authenticated (\<lambda>self.
     let measurements_url = URL @ ''devices/'' @ str_int device_id @ ''/measures''
     in case to_date start of
          Inl e \<Rightarrow> (Inl e, self, [])
        | Inr s \<Rightarrow>
           (case to_date end' of
              Inl e \<Rightarrow> (Inl e, self, [])
            | Inr e' \<Rightarrow>
               (let ps = [(''filter[period]'', ascii (str_int period)),
                          (''filter[start]'', s), (''filter[end]'', e')];
                    req = \<lparr>meth = GET, url = measurements_url, form = [], params = ps,
                           authorization = Some (access_token self)\<rparr>
                in case net req of
                     Inl e \<Rightarrow> (Inl e, self, [req])
                   | Inr r \<Rightarrow>
                      (case raise_for_status r of
                         Inl e \<Rightarrow> (Inl e, self, [req])
                       | Inr _ \<Rightarrow> (response_json r, self, [req])))))"

text \<open>
  The loop of \<^verbatim>\<open>get_start_end\<close> with its \<^verbatim>\<open>else\<close> clause. \<open>parse\<close> is
  \<^verbatim>\<open>dateutil.parser.parse\<close>, a parameter of the model.
\<close>

fun scan :: "(json \<Rightarrow> error + 't) \<Rightarrow> int \<Rightarrow> json list \<Rightarrow> error + ('t option \<times> 't option)" where
  "scan parse device_id [] = Inr (None, None)"
| "scan parse device_id (device # rest) =
     (case getitem device ''id'' of
        Inl e \<Rightarrow> Inl e
      | Inr i \<Rightarrow>
         if eq_int i device_id then
           (case getitem device ''attributes'' of
              Inl e \<Rightarrow> Inl e
            | Inr a \<Rightarrow>
               (case getitem a ''created_at'' of
                  Inl e \<Rightarrow> Inl e
                | Inr c \<Rightarrow>
                   (case parse c of
                      Inl e \<Rightarrow> Inl e
                    | Inr start \<Rightarrow>
                       (case getitem device ''attributes'' of
                          Inl e \<Rightarrow> Inl e
                        | Inr a' \<Rightarrow>
                           (case getitem a' ''last_image_date'' of
                              Inl e \<Rightarrow> Inl e
                            | Inr l \<Rightarrow>
                               (case parse l of
                                  Inl e \<Rightarrow> Inl e
                                | Inr end' \<Rightarrow> Inr (Some start, Some end')))))))
         else scan parse device_id rest)"

definition get_start_end ::
  "(json \<Rightarrow> error + 't) \<Rightarrow> network \<Rightarrow> int \<Rightarrow> int \<Rightarrow> june
     \<Rightarrow> ('t option \<times> 't option) outcome" where
  "get_start_end parse net contract_id device_id self =
     (case get_devices net contract_id self of
        (Inl e, self', reqs) \<Rightarrow> (Inl e, self', reqs)
      | (Inr devices, self', reqs) \<Rightarrow>
         (case getitem devices ''data'' of
            Inl e \<Rightarrow> (Inl e, self', reqs)
          | Inr d \<Rightarrow>
             (case iter d of
                Inl e \<Rightarrow> (Inl e, self', reqs)
              | Inr ds \<Rightarrow> (scan parse device_id ds, self', reqs))))"

section \<open>Reading an outcome, and example servers\<close>

definition result :: "'a outcome \<Rightarrow> error + 'a" where
  "result out = fst out"

definition client_after :: "'a outcome \<Rightarrow> june" where
  "client_after out = fst (snd out)"

definition issued :: "'a outcome \<Rightarrow> request list" where
  "issued out = snd (snd out)"

text \<open>A server that answers every request with status \<open>st\<close> and the JSON body \<open>j\<close>.\<close>

definition answering :: "int \<Rightarrow> json \<Rightarrow> network" where
  "answering st j req = Inr \<lparr>status_code = st, body = Some j\<rparr>"

definition two_contracts :: json where
  "two_contracts = JDict [(''data'', JList [JDict [(''id'', JInt 1)], JDict [(''id'', JInt 2)] ])]"

definition one_contract :: json where
  "one_contract = JDict [(''data'', JList [JDict [(''id'', JInt 7), (''type'', JStr ''contracts'')] ])]"

definition jan15 :: date_obj where
  "jan15 = Str (ascii ''2020-01-15'')"

definition no_token :: june where
  "no_token = init JNull"

definition empty_token :: june where
  "empty_token = init (JStr [])"

definition with_token :: june where
  "with_token = init (JStr ''tok'')"

text \<open>A server that answers every request with the response \<open>r\<close>.\<close>

definition responding :: "response \<Rightarrow> network" where
  "responding r req = Inr r"

definition not_found :: response where
  "not_found = \<lparr>status_code = 404, body = None\<rparr>"

definition token_body :: json where
  "token_body = JDict [(''access_token'', JStr ''fresh''), (''token_type'', JStr ''bearer'')]"

text \<open>Three devices of one contract; the last two share an id.\<close>

definition device_a :: "(string \<times> json) list" where
  "device_a = [(''id'', JInt 10), (''attributes'',
      JDict [(''created_at'', JStr ''2019-01-01T00:00:00Z''),
             (''last_image_date'', JStr ''2019-06-01T00:00:00Z'')])]"

definition device_b :: "(string \<times> json) list" where
  "device_b = [(''id'', JInt 11), (''attributes'',
      JDict [(''created_at'', JStr ''2019-02-01T00:00:00Z''),
             (''last_image_date'', JStr ''2019-07-01T00:00:00Z'')])]"

definition device_c :: "(string \<times> json) list" where
  "device_c = [(''id'', JInt 11), (''attributes'',
      JDict [(''created_at'', JStr ''2019-03-01T00:00:00Z''),
             (''last_image_date'', JStr ''2019-08-01T00:00:00Z'')])]"

definition three_devices :: "(string \<times> json) list" where
  "three_devices = [(''data'', JList (map JDict [device_a, device_b, device_c]))]"

text \<open>A stand-in for the timestamp parser in examples: a string parses to itself.\<close>

definition parse_text :: "json \<Rightarrow> error + string" where
  "parse_text j = (case j of JStr s \<Rightarrow> Inr s | _ \<Rightarrow> Inl TypeError)"

text \<open>The device entry \<open>d\<close> carries the id \<open>device_id\<close>, by Python's \<^verbatim>\<open>==\<close>.\<close>

definition has_id :: "int \<Rightarrow> (string \<times> json) list \<Rightarrow> bool" where
  "has_id device_id d = (case map_of d ''id'' of None \<Rightarrow> False | Some i \<Rightarrow> eq_int i device_id)"

section \<open>Notions of the specification about dates\<close>

text \<open>The time fields of a datetime are in range, and its time of day in microseconds.\<close>

definition valid_time :: "datetime \<Rightarrow> bool" where
  "valid_time d = (0 \<le> hour d \<and> hour d < 24 \<and> 0 \<le> minute d \<and> minute d < 60 \<and>
                   0 \<le> second d \<and> second d < 60 \<and>
                   0 \<le> microsecond d \<and> microsecond d < 1000000)"

definition time_of_day :: "datetime \<Rightarrow> int" where
  "time_of_day d = ((hour d * 60 + minute d) * 60 + second d) * 1000000 + microsecond d"

text \<open>
  Taking the offset \<open>off\<close> away from the wall clock of \<open>d\<close> leaves the calendar day, or
  moves to the day before or the day after: the UTC day as a day number.
\<close>

definition day_shift :: "datetime \<Rightarrow> timedelta \<Rightarrow> int" where
  "day_shift d off =
     (if time_of_day d - off < 0 then - 1
      else if time_of_day d - off < 86400000000 then 0 else 1)"

definition utc_ordinal :: "datetime \<Rightarrow> timedelta \<Rightarrow> int" where
  "utc_ordinal d off = ymd2ord (year d) (month d) (day d) + day_shift d off"

text \<open>2020-01-15 at the given hour, in a zone \<open>h\<close> hours east of UTC.\<close>

definition jan15_at :: "int \<Rightarrow> int \<Rightarrow> datetime" where
  "jan15_at hr h = \<lparr>year = 2020, month = 1, day = 15, hour = hr, minute = 0, second = 0,
                     microsecond = 0, tzinfo = Some (Zone (timedelta 0 h 0 0 0))\<rparr>"

definition new_years_eve_new_york :: datetime where
  "new_years_eve_new_york = \<lparr>year = 2020, month = 12, day = 31, hour = 23, minute = 30,
     second = 0, microsecond = 0, tzinfo = Some (Zone (timedelta 0 (- 5) 0 0 0))\<rparr>"

text \<open>The first instant of the calendar, on a clock two hours east of UTC.\<close>

definition first_day_east :: datetime where
  "first_day_east = \<lparr>year = 1, month = 1, day = 1, hour = 0, minute = 0, second = 0,
     microsecond = 0, tzinfo = Some (Zone (timedelta 0 2 0 0 0))\<rparr>"

text \<open>
  The text \<open>yyyy-mm-dd\<close> of a date as the specification words it: the year with four
  digits, the month and the day with two.
\<close>

definition yyyy_mm_dd :: "int \<Rightarrow> int \<Rightarrow> int \<Rightarrow> pystr" where
  "yyyy_mm_dd y m d = ascii (zero_pad 4 y @ ''-'' @ zero_pad 2 m @ ''-'' @ zero_pad 2 d)"

text \<open>
  The form \<open>yyyy-mm-dd\<close> of a string as the specification words it: four digits, a
  hyphen, two digits, a hyphen, two digits, the digits being the ASCII ones; and the
  year, month and day such a string names.
\<close>

definition hyphen :: int where
  "hyphen = 45"

definition blank :: int where
  "blank = 32"

definition is_digit :: "int \<Rightarrow> bool" where
  "is_digit c = (48 \<le> c \<and> c \<le> 57)"

definition digit_val :: "int \<Rightarrow> int" where
  "digit_val c = c - 48"

fun is_yyyy_mm_dd :: "pystr \<Rightarrow> bool" where
  "is_yyyy_mm_dd [y1, y2, y3, y4, h1, m1, m2, h2, d1, d2] =
     (is_digit y1 \<and> is_digit y2 \<and> is_digit y3 \<and> is_digit y4 \<and> h1 = hyphen \<and>
      is_digit m1 \<and> is_digit m2 \<and> h2 = hyphen \<and> is_digit d1 \<and> is_digit d2)"
| "is_yyyy_mm_dd _ = False"

definition year_of :: "pystr \<Rightarrow> int" where
  "year_of s = 1000 * digit_val (s ! 0) + 100 * digit_val (s ! 1) + 10 * digit_val (s ! 2)
                 + digit_val (s ! 3)"

definition month_of :: "pystr \<Rightarrow> int" where
  "month_of s = 10 * digit_val (s ! 5) + digit_val (s ! 6)"

definition day_of :: "pystr \<Rightarrow> int" where
  "day_of s = 10 * digit_val (s ! 8) + digit_val (s ! 9)"

text \<open>A date of the calendar: a year from 1 on, a month, and a day that month has.\<close>

definition real_date :: "int \<Rightarrow> int \<Rightarrow> int \<Rightarrow> bool" where
  "real_date y m d = (1 \<le> y \<and> 1 \<le> m \<and> m \<le> 12 \<and> 1 \<le> d \<and> d \<le> days_in_month y m)"

text \<open>
  A looser spelling of a date: a year of four decimal digits of any script, a hyphen, a
  month from 1 to 12 in ASCII digits with or without a leading zero, a hyphen, and a day
  from 1 to 31 with or without a leading zero or with a blank before its one digit, its
  second digit after a 1 or a 2 being of any script; the month is the text up to the
  second hyphen, the day the text after it, and the numbers they write are a date of the
  calendar.
\<close>

definition is_nonzero_digit :: "int \<Rightarrow> bool" where
  "is_nonzero_digit c = (49 \<le> c \<and> c \<le> 57)"

fun month_field :: "pystr \<Rightarrow> bool" where
  "month_field [a] = is_nonzero_digit a"
| "month_field [a, b] = (a = 49 \<and> 48 \<le> b \<and> b \<le> 50 \<or> a = 48 \<and> is_nonzero_digit b)"
| "month_field _ = False"

fun day_field :: "pystr \<Rightarrow> bool" where
  "day_field [a] = is_nonzero_digit a"
| "day_field [a, b] =
     (a = 51 \<and> 48 \<le> b \<and> b \<le> 49 \<or> (a = 49 \<or> a = 50) \<and> is_decimal b \<or>
      (a = 48 \<or> a = blank) \<and> is_nonzero_digit b)"
| "day_field _ = False"

definition month_text :: "pystr \<Rightarrow> pystr" where
  "month_text s = takeWhile (\<lambda>c. c \<noteq> hyphen) (drop 5 s)"

definition day_text :: "pystr \<Rightarrow> pystr" where
  "day_text s = drop 1 (dropWhile (\<lambda>c. c \<noteq> hyphen) (drop 5 s))"

definition ymd_like :: "pystr \<Rightarrow> bool" where
  "ymd_like s =
     (length (take 4 s) = 4 \<and> list_all is_decimal (take 4 s) \<and>
      take 1 (drop 4 s) = [hyphen] \<and> month_field (month_text s) \<and>
      take 1 (dropWhile (\<lambda>c. c \<noteq> hyphen) (drop 5 s)) = [hyphen] \<and>
      day_field (day_text s))"

definition loose_date :: "pystr \<Rightarrow> bool" where
  "loose_date s =
     (ymd_like s \<and>
      real_date (int_of_group (take 4 s)) (int_of_group (month_text s))
        (int_of_group (day_text s)))"

text \<open>
  Strings of the examples: a year in fullwidth digits, a month in them, and a day whose
  second digit is one.
\<close>

definition fullwidth_year :: pystr where
  "fullwidth_year = [65298, 65296, 65298, 65296] @ ascii ''-01-15''"

definition fullwidth_month :: pystr where
  "fullwidth_month = ascii ''2020-'' @ [65296, 65297] @ ascii ''-15''"

definition fullwidth_day :: pystr where
  "fullwidth_day = ascii ''2020-01-1'' @ [65301]"

section \<open>The authenticated-call gate\<close>

lemma authenticated_falsy:
  "\<not> truthy (access_token self) \<Longrightarrow>
     authenticated func self = (Inl NotAuthenticatedError, self, [])"
  by (simp add: authenticated_def)

lemma legacy_authenticated_falsy:
  "\<not> truthy (access_token self) \<Longrightarrow>
     legacy_authenticated func self = (Inl NotAuthenticatedError, self, [])"
  by (simp add: legacy_authenticated_def)

lemma authenticated_truthy:
  "truthy (access_token self) \<Longrightarrow> authenticated func self = func self"
  by (simp add: authenticated_def)

lemma legacy_authenticated_truthy:
  "truthy (access_token self) \<Longrightarrow> legacy_authenticated func self = func self"
  by (simp add: legacy_authenticated_def)

text \<open>
  C1. A client whose token is absent (\<^verbatim>\<open>None\<close>): each data-fetching operation of either
  module raises \<^verbatim>\<open>NotAuthenticatedError\<close>, the client is as before and the list of
  requests issued is empty, whatever the network would have answered.
\<close>

theorem absent_token_raises_before_any_request:
  "access_token self = JNull \<Longrightarrow>
     get_contracts net self = (Inl NotAuthenticatedError, self, []) \<and>
     get_devices net contract_id self = (Inl NotAuthenticatedError, self, []) \<and>
     get_measurements net device_id period start end' self
       = (Inl NotAuthenticatedError, self, []) \<and>
     legacy_get_contracts net self = (Inl NotAuthenticatedError, self, []) \<and>
     legacy_get_devices net id' self = (Inl NotAuthenticatedError, self, [])"
  by (simp add: get_contracts_def get_devices_def get_measurements_def
      legacy_get_contracts_def legacy_get_devices_def
      authenticated_falsy legacy_authenticated_falsy)

theorem absent_token_witness:
  "access_token no_token = JNull \<and>
   get_contracts (answering 200 two_contracts) no_token
     = (Inl NotAuthenticatedError, no_token, []) \<and>
   get_devices (answering 200 two_contracts) 7 no_token
     = (Inl NotAuthenticatedError, no_token, []) \<and>
   get_measurements (answering 200 two_contracts) 3 0 jan15 jan15 no_token
     = (Inl NotAuthenticatedError, no_token, []) \<and>
   legacy_get_contracts (answering 200 two_contracts) no_token
     = (Inl NotAuthenticatedError, no_token, []) \<and>
   legacy_get_devices (answering 200 two_contracts) 7 no_token
     = (Inl NotAuthenticatedError, no_token, [])"
proof -
  have tok: "access_token no_token = JNull"
    by (simp add: no_token_def init_def)
  from absent_token_raises_before_any_request
    [OF tok, of "answering 200 two_contracts" 7 3 0 jan15 jan15 7]
  show ?thesis using tok by simp
qed

text \<open>
  C10. The gate tests the truth value of the token, not its presence: with the empty
  string, or any other falsy value, each gated operation raises
  \<^verbatim>\<open>NotAuthenticatedError\<close> without a request.
\<close>

theorem falsy_token_is_unauthenticated:
  "\<not> truthy (access_token self) \<Longrightarrow>
     get_contracts net self = (Inl NotAuthenticatedError, self, []) \<and>
     get_devices net contract_id self = (Inl NotAuthenticatedError, self, []) \<and>
     get_measurements net device_id period start end' self
       = (Inl NotAuthenticatedError, self, []) \<and>
     legacy_get_contracts net self = (Inl NotAuthenticatedError, self, []) \<and>
     legacy_get_devices net id' self = (Inl NotAuthenticatedError, self, [])"
  by (simp add: get_contracts_def get_devices_def get_measurements_def
      legacy_get_contracts_def legacy_get_devices_def
      authenticated_falsy legacy_authenticated_falsy)

theorem falsy_token_witness:
  "access_token empty_token = JStr [] \<and> \<not> truthy (access_token empty_token) \<and>
   get_contracts (answering 200 two_contracts) empty_token
     = (Inl NotAuthenticatedError, empty_token, []) \<and>
   get_devices (answering 200 two_contracts) 7 empty_token
     = (Inl NotAuthenticatedError, empty_token, []) \<and>
   get_measurements (answering 200 two_contracts) 3 0 jan15 jan15 empty_token
     = (Inl NotAuthenticatedError, empty_token, []) \<and>
   legacy_get_contracts (answering 200 two_contracts) empty_token
     = (Inl NotAuthenticatedError, empty_token, []) \<and>
   legacy_get_devices (answering 200 two_contracts) 7 empty_token
     = (Inl NotAuthenticatedError, empty_token, [])"
proof -
  have tok: "access_token empty_token = JStr []"
    by (simp add: empty_token_def init_def)
  then have falsy: "\<not> truthy (access_token empty_token)"
    by simp
  from falsy_token_is_unauthenticated
    [OF falsy, of "answering 200 two_contracts" 7 3 0 jan15 jan15 7]
  show ?thesis using tok by simp
qed

section \<open>Contract ids\<close>

lemma ids_of_dicts:
  "map (\<lambda>c. map_of c ''id'') cs = map Some ids \<Longrightarrow> ids_of (map JDict cs) = Inr ids"
  by (induction cs arbitrary: ids) auto

text \<open>
  C4. When the contracts payload is a dict whose \<open>data\<close> entry is a list of dicts that
  each have an \<open>id\<close>, \<open>get_contract_ids\<close> (and \<open>get_ids\<close> of the legacy module) return the
  \<open>id\<close> values of the entries, in the order of the list.
\<close>

theorem contract_ids_in_payload_order:
  assumes "map_of payload ''data'' = Some (JList (map JDict cs))"
    and "map (\<lambda>c. map_of c ''id'') cs = map Some ids"
  shows "(get_contracts net self = (Inr (JDict payload), self', reqs) \<longrightarrow>
            get_contract_ids net self = (Inr ids, self', reqs)) \<and>
         (legacy_get_contracts net self = (Inr (JDict payload), self', reqs) \<longrightarrow>
            get_ids net self = (Inr ids, self', reqs))"
  using assms by (simp add: get_contract_ids_def get_ids_def ids_of_dicts)

lemma get_contracts_answering:
  "truthy (access_token self) \<Longrightarrow> \<not> (400 \<le> st \<and> st < 600) \<Longrightarrow>
     get_contracts (answering st j) self
       = (Inr j, self, [\<lparr>meth = GET, url = URL @ ''contracts'', form = [], params = [],
                         authorization = Some (access_token self)\<rparr>])"
  by (simp add: get_contracts_def authenticated_truthy answering_def raise_for_status_def
      response_json_def)

lemma legacy_get_contracts_answering:
  "truthy (access_token self) \<Longrightarrow> \<not> (400 \<le> st \<and> st < 600) \<Longrightarrow>
     legacy_get_contracts (answering st j) self
       = (Inr j, self, [\<lparr>meth = GET, url = URL @ ''contracts'', form = [], params = [],
                         authorization = Some (access_token self)\<rparr>])"
  by (simp add: legacy_get_contracts_def legacy_authenticated_truthy answering_def
      raise_for_status_def response_json_def)

lemma with_token_truthy: "truthy (access_token with_token)"
  by (simp add: with_token_def init_def)

lemma status_200_ok: "\<not> (400 \<le> (200::int) \<and> (200::int) < 600)"
  by simp

theorem contract_ids_witness:
  "result (get_contract_ids (answering 200 two_contracts) with_token)
     = Inr [JInt 1, JInt 2] \<and>
   result (get_ids (answering 200 two_contracts) with_token)
     = Inr [JInt 1, JInt 2]"
proof -
  let ?top = "[(''data'', JList [JDict [(''id'', JInt 1)], JDict [(''id'', JInt 2)] ])]"
  let ?reqs = "[\<lparr>meth = GET, url = URL @ ''contracts'', form = [], params = [],
                 authorization = Some (access_token with_token)\<rparr>]"
  have d: "map_of ?top ''data''
             = Some (JList (map JDict [ [(''id'', JInt 1)], [(''id'', JInt 2)] ]))"
    by simp
  have i: "map (\<lambda>c. map_of c ''id'') [ [(''id'', JInt 1)], [(''id'', JInt 2)] ]
             = map Some [JInt 1, JInt 2]"
    by simp
  have g: "get_contracts (answering 200 two_contracts) with_token
             = (Inr (JDict ?top), with_token, ?reqs)"
    using get_contracts_answering [OF with_token_truthy status_200_ok, of two_contracts]
    by (simp add: two_contracts_def)
  have l: "legacy_get_contracts (answering 200 two_contracts) with_token
             = (Inr (JDict ?top), with_token, ?reqs)"
    using legacy_get_contracts_answering [OF with_token_truthy status_200_ok, of two_contracts]
    by (simp add: two_contracts_def)
  from contract_ids_in_payload_order
    [OF d i, of "answering 200 two_contracts" with_token with_token ?reqs]
  show ?thesis using g l by (simp add: result_def)
qed

text \<open>
  C9. On the extraction of contract ids the two modules agree: for every network and
  every client, \<open>get_ids\<close> of the legacy module and \<open>get_contract_ids\<close> of the current one
  give the same result (the same ids or the same exception), the same client afterwards
  and the same requests.
\<close>

theorem legacy_get_ids_agrees_with_get_contract_ids:
  "get_ids net self = get_contract_ids net self"
  by (simp add: get_ids_def get_contract_ids_def legacy_get_contracts_def get_contracts_def
      legacy_authenticated_def authenticated_def)

text \<open>
  C5. \<open>get_id\<close> returns the only contract id when the list of ids has exactly one entry,
  and raises \<^verbatim>\<open>MultipleIdError\<close> when it has none or more than one.
\<close>

theorem get_id_sole_or_error:
  assumes "get_ids net self = (Inr ids, self', reqs)"
  shows "(\<forall>i. ids = [i] \<longrightarrow> get_id net self = (Inr i, self', reqs)) \<and>
         (length ids \<noteq> 1 \<longrightarrow> get_id net self = (Inl MultipleIdError, self', reqs))"
  using assms by (simp add: get_id_def)

lemma get_ids_answering:
  "truthy (access_token self) \<Longrightarrow> \<not> (400 \<le> st \<and> st < 600) \<Longrightarrow>
   map (\<lambda>c. map_of c ''id'') cs = map Some ids \<Longrightarrow>
     get_ids (answering st (JDict [(''data'', JList (map JDict cs))])) self
       = (Inr ids, self, [\<lparr>meth = GET, url = URL @ ''contracts'', form = [], params = [],
                           authorization = Some (access_token self)\<rparr>])"
  by (simp add: get_ids_def legacy_get_contracts_answering ids_of_dicts)

theorem get_id_witness:
  "result (get_id (answering 200 one_contract) with_token) = Inr (JInt 7) \<and>
   result (get_id (answering 200 two_contracts) with_token) = Inl MultipleIdError \<and>
   result (get_id (answering 200 (JDict [(''data'', JList [])])) with_token)
     = Inl MultipleIdError"
proof -
  let ?reqs = "[\<lparr>meth = GET, url = URL @ ''contracts'', form = [], params = [],
                 authorization = Some (access_token with_token)\<rparr>]"
  have one: "get_ids (answering 200 one_contract) with_token
               = (Inr [JInt 7], with_token, ?reqs)"
    using get_ids_answering [OF with_token_truthy status_200_ok,
        of "[ [(''id'', JInt 7), (''type'', JStr ''contracts'')] ]" "[JInt 7]"]
    by (simp add: one_contract_def)
  have two: "get_ids (answering 200 two_contracts) with_token
               = (Inr [JInt 1, JInt 2], with_token, ?reqs)"
    using get_ids_answering [OF with_token_truthy status_200_ok,
        of "[ [(''id'', JInt 1)], [(''id'', JInt 2)] ]" "[JInt 1, JInt 2]"]
    by (simp add: two_contracts_def)
  have none: "get_ids (answering 200 (JDict [(''data'', JList [])])) with_token
                = (Inr [], with_token, ?reqs)"
    using get_ids_answering [OF with_token_truthy status_200_ok, of "[]" "[]"] by simp
  show ?thesis
    using get_id_sole_or_error [OF one] get_id_sole_or_error [OF two]
      get_id_sole_or_error [OF none]
    by (simp add: result_def)
qed

section \<open>One request, and what its status does\<close>

lemma get_contracts_responding:
  "truthy (access_token self) \<Longrightarrow>
     get_contracts (responding r) self
       = (if 400 \<le> status_code r \<and> status_code r < 600 then Inl (HTTPError (status_code r))
          else response_json r,
          self,
          [\<lparr>meth = GET, url = URL @ ''contracts'', form = [], params = [],
            authorization = Some (access_token self)\<rparr>])"
  by (simp add: get_contracts_def authenticated_truthy responding_def raise_for_status_def)

lemma legacy_get_contracts_responding:
  "truthy (access_token self) \<Longrightarrow>
     legacy_get_contracts (responding r) self
       = (if 400 \<le> status_code r \<and> status_code r < 600 then Inl (HTTPError (status_code r))
          else response_json r,
          self,
          [\<lparr>meth = GET, url = URL @ ''contracts'', form = [], params = [],
            authorization = Some (access_token self)\<rparr>])"
  by (simp add: legacy_get_contracts_def legacy_authenticated_truthy responding_def
      raise_for_status_def)

lemma get_devices_responding:
  "truthy (access_token self) \<Longrightarrow>
     get_devices (responding r) contract_id self
       = (if 400 \<le> status_code r \<and> status_code r < 600 then Inl (HTTPError (status_code r))
          else response_json r,
          self,
          [\<lparr>meth = GET, url = URL @ ''contracts/'' @ str_int contract_id @ ''/devices'',
            form = [], params = [], authorization = Some (access_token self)\<rparr>])"
  by (simp add: get_devices_def authenticated_truthy responding_def raise_for_status_def)

lemma legacy_get_devices_responding:
  "truthy (access_token self) \<Longrightarrow>
     legacy_get_devices (responding r) id' self
       = (if 400 \<le> status_code r \<and> status_code r < 600 then Inl (HTTPError (status_code r))
          else response_json r,
          self,
          [\<lparr>meth = GET, url = URL @ ''devices/'' @ str_int id', form = [], params = [],
            authorization = Some (access_token self)\<rparr>])"
  by (simp add: legacy_get_devices_def legacy_authenticated_truthy responding_def
      raise_for_status_def)

lemma get_measurements_responding:
  "truthy (access_token self) \<Longrightarrow> to_date start = Inr s \<Longrightarrow> to_date end' = Inr e \<Longrightarrow>
     get_measurements (responding r) device_id period start end' self
       = (if 400 \<le> status_code r \<and> status_code r < 600 then Inl (HTTPError (status_code r))
          else response_json r,
          self,
          [\<lparr>meth = GET, url = URL @ ''devices/'' @ str_int device_id @ ''/measures'',
            form = [],
            params = [(''filter[period]'', ascii (str_int period)), (''filter[start]'', s),
                      (''filter[end]'', e)],
            authorization = Some (access_token self)\<rparr>])"
  by (simp add: get_measurements_def authenticated_truthy responding_def raise_for_status_def)

lemma authenticate_responding_error:
  "400 \<le> status_code r \<and> status_code r < 600 \<Longrightarrow>
     authenticate (responding r) username password self
       = (Inl (HTTPError (status_code r)), self,
          [\<lparr>meth = POST, url = URL @ ''oauth/token'',
            form = [(''grant_type'', ''password''), (''username'', username),
                    (''password'', password)],
            params = [], authorization = None\<rparr>])"
  by (simp add: authenticate_def responding_def raise_for_status_def)

lemma legacy_authenticate_responding_error:
  "400 \<le> status_code r \<and> status_code r < 600 \<Longrightarrow>
     legacy_authenticate (responding r) username password self
       = (Inl (HTTPError (status_code r)), self,
          [\<lparr>meth = POST, url = URL @ ''oauth/token'',
            form = [(''grant_type'', ''password''), (''username'', username),
                    (''password'', password)],
            params = [], authorization = None\<rparr>])"
  by (simp add: legacy_authenticate_def responding_def raise_for_status_def)

lemma authenticate_responding_token:
  "\<not> (400 \<le> status_code r \<and> status_code r < 600) \<Longrightarrow> body r = Some j \<Longrightarrow>
   getitem j ''access_token'' = Inr t \<Longrightarrow>
     authenticate (responding r) username password self
       = (Inr (), self\<lparr>access_token := t\<rparr>,
          [\<lparr>meth = POST, url = URL @ ''oauth/token'',
            form = [(''grant_type'', ''password''), (''username'', username),
                    (''password'', password)],
            params = [], authorization = None\<rparr>])"
  by (simp add: authenticate_def responding_def raise_for_status_def response_json_def)

lemma legacy_authenticate_responding_token:
  "\<not> (400 \<le> status_code r \<and> status_code r < 600) \<Longrightarrow> body r = Some j \<Longrightarrow>
   getitem j ''access_token'' = Inr t \<Longrightarrow>
     legacy_authenticate (responding r) username password self
       = (Inr (), self\<lparr>access_token := t\<rparr>,
          [\<lparr>meth = POST, url = URL @ ''oauth/token'',
            form = [(''grant_type'', ''password''), (''username'', username),
                    (''password'', password)],
            params = [], authorization = None\<rparr>])"
  by (simp add: legacy_authenticate_def responding_def raise_for_status_def response_json_def)

lemma answering_responding: "answering st j = responding \<lparr>status_code = st, body = Some j\<rparr>"
  by (rule ext) (simp add: answering_def responding_def)

subsection \<open>The client is only written by a successful authenticate\<close>

lemma client_after_authenticated:
  "(\<And>s. client_after (func s) = s) \<Longrightarrow> client_after (authenticated func self) = self"
  by (simp add: authenticated_def client_after_def)

lemma client_after_legacy_authenticated:
  "(\<And>s. client_after (func s) = s) \<Longrightarrow> client_after (legacy_authenticated func self) = self"
  by (simp add: legacy_authenticated_def client_after_def)

lemma client_after_get_contracts: "client_after (get_contracts net self) = self"
  unfolding get_contracts_def
  by (rule client_after_authenticated)
     (simp add: client_after_def Let_def split: sum.splits)

lemma client_after_get_devices: "client_after (get_devices net contract_id self) = self"
  unfolding get_devices_def
  by (rule client_after_authenticated)
     (simp add: client_after_def Let_def split: sum.splits)

lemma client_after_get_measurements:
  "client_after (get_measurements net device_id period start end' self) = self"
  unfolding get_measurements_def
  by (rule client_after_authenticated)
     (simp add: client_after_def Let_def split: sum.splits)

lemma client_after_legacy_get_contracts: "client_after (legacy_get_contracts net self) = self"
  unfolding legacy_get_contracts_def
  by (rule client_after_legacy_authenticated)
     (simp add: client_after_def Let_def split: sum.splits)

lemma client_after_legacy_get_devices: "client_after (legacy_get_devices net id' self) = self"
  unfolding legacy_get_devices_def
  by (rule client_after_legacy_authenticated)
     (simp add: client_after_def Let_def split: sum.splits)

lemma client_after_get_contract_ids: "client_after (get_contract_ids net self) = self"
  using client_after_get_contracts [of net self]
  by (auto simp: get_contract_ids_def client_after_def split: prod.splits sum.splits)

lemma client_after_get_ids: "client_after (get_ids net self) = self"
  using client_after_legacy_get_contracts [of net self]
  by (auto simp: get_ids_def client_after_def split: prod.splits sum.splits)

lemma client_after_get_id: "client_after (get_id net self) = self"
  using client_after_get_ids [of net self]
  by (auto simp: get_id_def client_after_def split: prod.splits sum.splits)

lemma client_after_get_start_end:
  "client_after (get_start_end parse net contract_id device_id self) = self"
  using client_after_get_devices [of net contract_id self]
  by (auto simp: get_start_end_def client_after_def split: prod.splits sum.splits)

lemma failed_authenticate_keeps_client:
  "result (authenticate net username password self) = Inl e \<Longrightarrow>
     client_after (authenticate net username password self) = self"
  by (auto simp: authenticate_def result_def client_after_def Let_def split: sum.splits)

lemma failed_legacy_authenticate_keeps_client:
  "result (legacy_authenticate net username password self) = Inl e \<Longrightarrow>
     client_after (legacy_authenticate net username password self) = self"
  by (auto simp: legacy_authenticate_def result_def client_after_def Let_def split: sum.splits)

text \<open>
  C7. Every data-fetching operation, of either module, returns the client it was given,
  so \<open>access_token\<close> is as before; and when \<open>authenticate\<close> raises, for whatever reason
  (transport failure, error status, body that is not JSON, body without an
  \<open>access_token\<close>), the client is as before too.
\<close>

theorem only_successful_authenticate_changes_client:
  "client_after (get_contracts net self) = self \<and>
   client_after (get_contract_ids net self) = self \<and>
   client_after (get_devices net contract_id self) = self \<and>
   client_after (get_measurements net device_id period start end' self) = self \<and>
   client_after (get_start_end parse net contract_id device_id self) = self \<and>
   client_after (legacy_get_contracts net self) = self \<and>
   client_after (get_ids net self) = self \<and>
   client_after (get_id net self) = self \<and>
   client_after (legacy_get_devices net id' self) = self \<and>
   (\<forall>e. result (authenticate net username password self) = Inl e \<longrightarrow>
      client_after (authenticate net username password self) = self) \<and>
   (\<forall>e. result (legacy_authenticate net username password self) = Inl e \<longrightarrow>
      client_after (legacy_authenticate net username password self) = self)"
  by (simp add: client_after_get_contracts client_after_get_contract_ids
      client_after_get_devices client_after_get_measurements client_after_get_start_end
      client_after_legacy_get_contracts client_after_get_ids client_after_get_id
      client_after_legacy_get_devices failed_authenticate_keeps_client
      failed_legacy_authenticate_keeps_client)

lemma not_found_status: "400 \<le> status_code not_found \<and> status_code not_found < 600"
  by (simp add: not_found_def)

lemma authenticate_no_token_field:
  "authenticate (answering 200 (JDict [])) username password self
     = (Inl (KeyError ''access_token''), self,
        [\<lparr>meth = POST, url = URL @ ''oauth/token'',
          form = [(''grant_type'', ''password''), (''username'', username),
                  (''password'', password)],
          params = [], authorization = None\<rparr>])"
  by (simp add: authenticate_def answering_def raise_for_status_def response_json_def)

theorem failed_authenticate_witness:
  "result (authenticate (responding not_found) ''user'' ''pw'' with_token)
     = Inl (HTTPError 404) \<and>
   client_after (authenticate (responding not_found) ''user'' ''pw'' with_token) = with_token \<and>
   result (authenticate (answering 200 (JDict [])) ''user'' ''pw'' with_token)
     = Inl (KeyError ''access_token'') \<and>
   client_after (authenticate (answering 200 (JDict [])) ''user'' ''pw'' with_token)
     = with_token \<and>
   client_after (authenticate (answering 200 token_body) ''user'' ''pw'' with_token)
     = init (JStr ''fresh'')"
proof -
  have r1: "result (authenticate (responding not_found) ''user'' ''pw'' with_token)
              = Inl (HTTPError 404)"
    using authenticate_responding_error [OF not_found_status, of "''user''" "''pw''" with_token]
    by (simp add: result_def not_found_def)
  have r2: "result (authenticate (answering 200 (JDict [])) ''user'' ''pw'' with_token)
              = Inl (KeyError ''access_token'')"
    by (simp add: authenticate_no_token_field result_def)
  have r3: "client_after (authenticate (answering 200 token_body) ''user'' ''pw'' with_token)
              = init (JStr ''fresh'')"
    unfolding answering_responding
    by (subst authenticate_responding_token [where j = token_body and t = "JStr ''fresh''"])
       (simp_all add: token_body_def client_after_def with_token_def init_def)
  from only_successful_authenticate_changes_client
    [where net = "responding not_found" and self = with_token
       and username = "''user''" and password = "''pw''" and contract_id = 0
       and device_id = 0 and period = 0 and start = jan15 and end' = jan15
       and parse = parse_text and id' = 0]
    only_successful_authenticate_changes_client
    [where net = "answering 200 (JDict [])" and self = with_token
       and username = "''user''" and password = "''pw''" and contract_id = 0
       and device_id = 0 and period = 0 and start = jan15 and end' = jan15
       and parse = parse_text and id' = 0]
  show ?thesis using r1 r2 r3 by simp
qed

subsection \<open>Error statuses\<close>

lemma to_date_jan15: "to_date jan15 = Inr (ascii ''2020-01-15'')"
  unfolding jan15_def by code_simp

lemma no_token_falsy: "\<not> truthy (access_token no_token)"
  by (simp add: no_token_def init_def)

lemma getitem_no_http_error: "getitem j k \<noteq> Inl (HTTPError e)"
  by (cases j) (auto split: option.splits)

lemma authenticate_issues_one_request:
  "length (issued (authenticate (responding r) username password self)) = 1 \<and>
   length (issued (legacy_authenticate (responding r) username password self)) = 1"
  by (simp add: issued_def authenticate_def legacy_authenticate_def responding_def Let_def
      split: sum.splits)

text \<open>
  C8, as the code has it. \<^verbatim>\<open>raise_for_status\<close> raises for the statuses 400 to 599 only.
  \<open>authenticate\<close>, of either module and on every client, also one that has no token yet:
  a response with such a status makes it raise \<^verbatim>\<open>HTTPError\<close> with that status and leaves
  the client as it was; a response with any other status, so every 2xx one, raises no
  \<^verbatim>\<open>HTTPError\<close>, and when its body is a JSON document with an \<open>access_token\<close> that token is
  stored. The fetching operations, of either module, on a client with a token (and dates
  that coerce, for \<open>get_measurements\<close>): a response with a status from 400 to 599 makes
  them raise \<^verbatim>\<open>HTTPError\<close> with that status; with any other status they raise no
  \<^verbatim>\<open>HTTPError\<close> and return what \<^verbatim>\<open>r.json()\<close> gives, the decoded body. In every case
  exactly one request is issued: nothing is retried.
\<close>

theorem error_status_raises_http_error:
  "(400 \<le> status_code r \<and> status_code r < 600 \<longrightarrow>
      authenticate (responding r) username password client
        = (Inl (HTTPError (status_code r)), client,
           issued (authenticate (responding r) username password client)) \<and>
      legacy_authenticate (responding r) username password client
        = (Inl (HTTPError (status_code r)), client,
           issued (legacy_authenticate (responding r) username password client))) \<and>
   (\<not> (400 \<le> status_code r \<and> status_code r < 600) \<longrightarrow>
      (\<forall>e. result (authenticate (responding r) username password client)
             \<noteq> Inl (HTTPError e)) \<and>
      (\<forall>e. result (legacy_authenticate (responding r) username password client)
             \<noteq> Inl (HTTPError e)) \<and>
      (\<forall>j t. body r = Some j \<and> getitem j ''access_token'' = Inr t \<longrightarrow>
         result (authenticate (responding r) username password client) = Inr () \<and>
         client_after (authenticate (responding r) username password client)
           = client\<lparr>access_token := t\<rparr> \<and>
         result (legacy_authenticate (responding r) username password client) = Inr () \<and>
         client_after (legacy_authenticate (responding r) username password client)
           = client\<lparr>access_token := t\<rparr>)) \<and>
   length (issued (authenticate (responding r) username password client)) = 1 \<and>
   length (issued (legacy_authenticate (responding r) username password client)) = 1 \<and>
   (truthy (access_token self) \<and> to_date start = Inr s \<and> to_date end' = Inr e \<longrightarrow>
      (400 \<le> status_code r \<and> status_code r < 600 \<longrightarrow>
         result (get_contracts (responding r) self) = Inl (HTTPError (status_code r)) \<and>
         result (get_devices (responding r) contract_id self)
           = Inl (HTTPError (status_code r)) \<and>
         result (get_measurements (responding r) device_id period start end' self)
           = Inl (HTTPError (status_code r)) \<and>
         result (legacy_get_contracts (responding r) self)
           = Inl (HTTPError (status_code r)) \<and>
         result (legacy_get_devices (responding r) id' self)
           = Inl (HTTPError (status_code r))) \<and>
      (\<not> (400 \<le> status_code r \<and> status_code r < 600) \<longrightarrow>
         result (get_contracts (responding r) self) = response_json r \<and>
         result (get_devices (responding r) contract_id self) = response_json r \<and>
         result (get_measurements (responding r) device_id period start end' self)
           = response_json r \<and>
         result (legacy_get_contracts (responding r) self) = response_json r \<and>
         result (legacy_get_devices (responding r) id' self) = response_json r) \<and>
      length (issued (get_contracts (responding r) self)) = 1 \<and>
      length (issued (get_devices (responding r) contract_id self)) = 1 \<and>
      length (issued (get_measurements (responding r) device_id period start end' self)) = 1 \<and>
      length (issued (legacy_get_contracts (responding r) self)) = 1 \<and>
      length (issued (legacy_get_devices (responding r) id' self)) = 1)"
proof -
  have auth_err: "400 \<le> status_code r \<and> status_code r < 600 \<longrightarrow>
      authenticate (responding r) username password client
        = (Inl (HTTPError (status_code r)), client,
           issued (authenticate (responding r) username password client)) \<and>
      legacy_authenticate (responding r) username password client
        = (Inl (HTTPError (status_code r)), client,
           issued (legacy_authenticate (responding r) username password client))"
    by (simp add: issued_def authenticate_responding_error
        legacy_authenticate_responding_error)
  have auth_quiet: "\<not> (400 \<le> status_code r \<and> status_code r < 600) \<longrightarrow>
      (\<forall>e. result (authenticate (responding r) username password client)
             \<noteq> Inl (HTTPError e)) \<and>
      (\<forall>e. result (legacy_authenticate (responding r) username password client)
             \<noteq> Inl (HTTPError e))"
    using getitem_no_http_error
    by (auto simp: result_def authenticate_def legacy_authenticate_def responding_def
        raise_for_status_def response_json_def Let_def split: option.splits sum.splits)
  have auth_ok: "\<not> (400 \<le> status_code r \<and> status_code r < 600) \<longrightarrow>
      (\<forall>j t. body r = Some j \<and> getitem j ''access_token'' = Inr t \<longrightarrow>
         result (authenticate (responding r) username password client) = Inr () \<and>
         client_after (authenticate (responding r) username password client)
           = client\<lparr>access_token := t\<rparr> \<and>
         result (legacy_authenticate (responding r) username password client) = Inr () \<and>
         client_after (legacy_authenticate (responding r) username password client)
           = client\<lparr>access_token := t\<rparr>)"
    by (simp add: result_def client_after_def authenticate_responding_token
        legacy_authenticate_responding_token)
  have fetch: "truthy (access_token self) \<and> to_date start = Inr s \<and> to_date end' = Inr e \<longrightarrow>
      (400 \<le> status_code r \<and> status_code r < 600 \<longrightarrow>
         result (get_contracts (responding r) self) = Inl (HTTPError (status_code r)) \<and>
         result (get_devices (responding r) contract_id self)
           = Inl (HTTPError (status_code r)) \<and>
         result (get_measurements (responding r) device_id period start end' self)
           = Inl (HTTPError (status_code r)) \<and>
         result (legacy_get_contracts (responding r) self)
           = Inl (HTTPError (status_code r)) \<and>
         result (legacy_get_devices (responding r) id' self)
           = Inl (HTTPError (status_code r))) \<and>
      (\<not> (400 \<le> status_code r \<and> status_code r < 600) \<longrightarrow>
         result (get_contracts (responding r) self) = response_json r \<and>
         result (get_devices (responding r) contract_id self) = response_json r \<and>
         result (get_measurements (responding r) device_id period start end' self)
           = response_json r \<and>
         result (legacy_get_contracts (responding r) self) = response_json r \<and>
         result (legacy_get_devices (responding r) id' self) = response_json r) \<and>
      length (issued (get_contracts (responding r) self)) = 1 \<and>
      length (issued (get_devices (responding r) contract_id self)) = 1 \<and>
      length (issued (get_measurements (responding r) device_id period start end' self)) = 1 \<and>
      length (issued (legacy_get_contracts (responding r) self)) = 1 \<and>
      length (issued (legacy_get_devices (responding r) id' self)) = 1"
    by (simp add: result_def issued_def get_contracts_responding get_devices_responding
        get_measurements_responding legacy_get_contracts_responding
        legacy_get_devices_responding)
  from auth_err auth_quiet auth_ok authenticate_issues_one_request [of r username password client]
    fetch
  show ?thesis
    by blast
qed

theorem error_status_witness:
  "authenticate (responding not_found) ''user'' ''pw'' no_token
     = (Inl (HTTPError 404), no_token,
        issued (authenticate (responding not_found) ''user'' ''pw'' no_token)) \<and>
   length (issued (authenticate (responding not_found) ''user'' ''pw'' no_token)) = 1 \<and>
   client_after (authenticate (responding \<lparr>status_code = 200, body = Some token_body\<rparr>)
       ''user'' ''pw'' no_token) = init (JStr ''fresh'') \<and>
   result (get_contracts (responding not_found) with_token) = Inl (HTTPError 404) \<and>
   result (get_measurements (responding not_found) 3 0 jan15 jan15 with_token)
     = Inl (HTTPError 404) \<and>
   length (issued (get_contracts (responding not_found) with_token)) = 1 \<and>
   result (get_contracts (responding \<lparr>status_code = 200, body = Some token_body\<rparr>) with_token)
     = Inr token_body"
proof -
  let ?ok = "\<lparr>status_code = 200, body = Some token_body\<rparr>"
  have tok: "getitem token_body ''access_token'' = Inr (JStr ''fresh'')"
    by (simp add: token_body_def)
  from error_status_raises_http_error
      [where r = not_found and username = "''user''" and password = "''pw''"
        and client = no_token and self = with_token and start = jan15 and end' = jan15
        and s = "ascii ''2020-01-15''" and e = "ascii ''2020-01-15''"
        and contract_id = 7 and device_id = 3 and period = 0 and id' = 7]
    error_status_raises_http_error
      [where r = ?ok and username = "''user''" and password = "''pw''"
        and client = no_token and self = with_token and start = jan15 and end' = jan15
        and s = "ascii ''2020-01-15''" and e = "ascii ''2020-01-15''"
        and contract_id = 7 and device_id = 3 and period = 0 and id' = 7]
  show ?thesis using tok with_token_truthy to_date_jan15
    by (simp add: not_found_def response_json_def no_token_def init_def)
qed

text \<open>
  C8 as the specification words it fails for a status that is neither 2xx nor an error
  status: a 300 answer to \<open>get_contracts\<close>, with a JSON body, raises nothing and its body
  is returned.
\<close>

theorem status_300_raises_nothing:
  "result (get_contracts (answering 300 two_contracts) with_token) = Inr two_contracts"
  by (simp add: result_def get_contracts_answering with_token_truthy)

section \<open>Device lifetimes\<close>

lemma scan_no_match:
  "\<forall>d \<in> set ds. map_of d ''id'' \<noteq> None \<Longrightarrow> find (has_id device_id) ds = None \<Longrightarrow>
     scan parse device_id (map JDict ds) = Inr (None, None)"
  by (induction ds) (auto simp: has_id_def split: if_splits)

lemma scan_first_match:
  "\<forall>d \<in> set ds. map_of d ''id'' \<noteq> None \<Longrightarrow> find (has_id device_id) ds = Some d \<Longrightarrow>
   map_of d ''attributes'' = Some (JDict attrs) \<Longrightarrow>
   map_of attrs ''created_at'' = Some c \<Longrightarrow> map_of attrs ''last_image_date'' = Some l \<Longrightarrow>
   parse c = Inr start \<Longrightarrow> parse l = Inr end' \<Longrightarrow>
     scan parse device_id (map JDict ds) = Inr (Some start, Some end')"
  by (induction ds) (auto simp: has_id_def split: if_splits)

text \<open>
  C6. The devices payload is a dict whose \<open>data\<close> entry is a list of dicts that each have
  an \<open>id\<close>. \<open>get_start_end\<close> goes through the list in order: when no entry has the
  device id it returns \<^verbatim>\<open>(None, None)\<close>; otherwise it takes the first entry that has it
  and returns its parsed \<open>created_at\<close> and \<open>last_image_date\<close>.
\<close>

theorem get_start_end_scans_in_order:
  assumes "get_devices net contract_id self = (Inr (JDict payload), self', reqs)"
    and "map_of payload ''data'' = Some (JList (map JDict ds))"
    and "\<forall>d \<in> set ds. map_of d ''id'' \<noteq> None"
  shows
   "(find (has_id device_id) ds = None \<longrightarrow>
       get_start_end parse net contract_id device_id self = (Inr (None, None), self', reqs)) \<and>
    (\<forall>d attrs c l start end'.
       find (has_id device_id) ds = Some d \<and>
       map_of d ''attributes'' = Some (JDict attrs) \<and>
       map_of attrs ''created_at'' = Some c \<and> map_of attrs ''last_image_date'' = Some l \<and>
       parse c = Inr start \<and> parse l = Inr end' \<longrightarrow>
       get_start_end parse net contract_id device_id self
         = (Inr (Some start, Some end'), self', reqs))"
  using assms
  by (auto simp: get_start_end_def scan_no_match scan_first_match)

lemma get_devices_three:
  "get_devices (answering 200 (JDict three_devices)) 5 with_token
     = (Inr (JDict three_devices), with_token,
        [\<lparr>meth = GET, url = URL @ ''contracts/'' @ str_int 5 @ ''/devices'',
          form = [], params = [], authorization = Some (access_token with_token)\<rparr>])"
  unfolding answering_responding
  by (simp add: get_devices_responding with_token_truthy response_json_def)

theorem get_start_end_witness:
  "result (get_start_end parse_text (answering 200 (JDict three_devices)) 5 99 with_token)
     = Inr (None, None) \<and>
   result (get_start_end parse_text (answering 200 (JDict three_devices)) 5 11 with_token)
     = Inr (Some ''2019-02-01T00:00:00Z'', Some ''2019-07-01T00:00:00Z'')"
proof -
  have d: "map_of three_devices ''data'' = Some (JList (map JDict [device_a, device_b, device_c]))"
    by (simp add: three_devices_def)
  have i: "\<forall>d \<in> set [device_a, device_b, device_c]. map_of d ''id'' \<noteq> None"
    by (simp add: device_a_def device_b_def device_c_def)
  have n: "find (has_id 99) [device_a, device_b, device_c] = None"
    by (simp add: has_id_def device_a_def device_b_def device_c_def)
  have f: "find (has_id 11) [device_a, device_b, device_c] = Some device_b"
    by (simp add: has_id_def device_a_def device_b_def device_c_def)
  have a: "map_of device_b ''attributes''
             = Some (JDict [(''created_at'', JStr ''2019-02-01T00:00:00Z''),
                            (''last_image_date'', JStr ''2019-07-01T00:00:00Z'')])"
    by (simp add: device_b_def)
  from get_start_end_scans_in_order [OF get_devices_three d i, of 99 parse_text]
    get_start_end_scans_in_order [OF get_devices_three d i, of 11 parse_text]
  show ?thesis using n f a
    by (simp add: result_def parse_text_def)
qed

section \<open>Date coercion of datetimes\<close>

lemma timedelta_split:
  "timedelta days h mi s us = days * 86400000000 + (((h * 60 + mi) * 60 + s) * 1000000 + us)"
  by (simp add: timedelta_def algebra_simps)

lemma time_of_day_range:
  "valid_time d \<Longrightarrow> 0 \<le> time_of_day d \<and> time_of_day d < 86400000000"
  unfolding valid_time_def time_of_day_def
proof (elim conjE)
  assume h: "0 \<le> hour d" "hour d < 24" and m: "0 \<le> minute d" "minute d < 60"
    and s: "0 \<le> second d" "second d < 60"
    and u: "0 \<le> microsecond d" "microsecond d < 1000000"
  have "0 \<le> (hour d * 60 + minute d) * 60 + second d"
    using h m s by simp
  moreover have "(hour d * 60 + minute d) * 60 + second d \<le> 86399"
    using h m s by simp
  ultimately show "0 \<le> ((hour d * 60 + minute d) * 60 + second d) * 1000000 + microsecond d \<and>
    ((hour d * 60 + minute d) * 60 + second d) * 1000000 + microsecond d < 86400000000"
    using u by simp
qed

lemma td_days_shift:
  assumes "valid_time d" and "- 86400000000 < off" and "off < 86400000000"
  shows "td_days (timedelta ord (hour d) (minute d) (second d) (microsecond d) + - off)
           = ord + day_shift d off"
proof -
  let ?t = "time_of_day d - off"
  have range: "- 86400000000 < ?t \<and> ?t < 2 * 86400000000"
    using time_of_day_range [OF assms(1)] assms(2,3) by simp
  have sum: "timedelta ord (hour d) (minute d) (second d) (microsecond d) + - off
               = ?t + ord * 86400000000"
    by (simp add: timedelta_split time_of_day_def)
  have "(?t + ord * 86400000000) div 86400000000 = ?t div 86400000000 + ord"
    by simp
  moreover have "?t div 86400000000 = day_shift d off"
  proof -
    consider "?t < 0" | "0 \<le> ?t \<and> ?t < 86400000000" | "86400000000 \<le> ?t"
      by linarith
    then show ?thesis
    proof cases
      case 1
      then have "?t div 86400000000 = - 1"
        using range by (simp add: div_pos_neg_trivial del: diff_less_0_iff_less)
      with 1 show ?thesis by (simp add: day_shift_def)
    next
      case 2
      then have "?t div 86400000000 = 0"
        by simp
      with 2 show ?thesis by (simp add: day_shift_def)
    next
      case 3
      then have "(?t - 86400000000) div 86400000000 = 0"
        using range by simp
      then have "?t div 86400000000 = 1"
        by (metis add.commute add.left_neutral diff_add_cancel div_add_self2 zero_neq_numeral)
      with 3 show ?thesis by (simp add: day_shift_def)
    qed
  qed
  ultimately show ?thesis
    unfolding td_days_def sum by simp
qed

lemma astimezone_zone:
  assumes "valid_time d" and "- 86400000000 < off" and "off < 86400000000"
    and "0 < utc_ordinal d off" and "utc_ordinal d off \<le> MAXORDINAL"
  shows "\<exists>u. astimezone_UTC d (Zone off) = Inr u \<and>
             year u = year (ord2ymd (utc_ordinal d off)) \<and>
             month u = month (ord2ymd (utc_ordinal d off)) \<and>
             day u = day (ord2ymd (utc_ordinal d off))"
  using assms td_days_shift [OF assms(1,2,3), of "ymd2ord (year d) (month d) (day d)"]
  by (simp add: astimezone_UTC_def utcoffset_def datetime_sub_def datetime_add_def Let_def
      utc_ordinal_def)

lemma astimezone_zone_overflow:
  assumes "valid_time d" and "- 86400000000 < off" and "off < 86400000000"
    and "\<not> (0 < utc_ordinal d off \<and> utc_ordinal d off \<le> MAXORDINAL)"
  shows "astimezone_UTC d (Zone off) = Inl OverflowError"
  using assms td_days_shift [OF assms(1,2,3), of "ymd2ord (year d) (month d) (day d)"]
  by (simp add: astimezone_UTC_def utcoffset_def datetime_sub_def datetime_add_def Let_def
      utc_ordinal_def)

text \<open>From the year 1000 on the C library prints the year with its four digits.\<close>

lemma digits_nonempty: "1 \<le> length (digits n)"
  by (subst digits.simps) simp

lemma digits_length_4: "1000 \<le> n \<Longrightarrow> 4 \<le> length (digits n)"
proof -
  assume n: "1000 \<le> n"
  then have n1: "\<not> n div 10 < 10" and n2: "\<not> n div 10 div 10 < 10"
    by arith+
  have "digits n = digits (n div 10) @ [digit_char (n mod 10)]"
    using n digits.simps [of n] by simp
  moreover have "digits (n div 10) = digits (n div 10 div 10) @ [digit_char (n div 10 mod 10)]"
    using n1 digits.simps [of "n div 10"] by simp
  moreover have "digits (n div 10 div 10)
      = digits (n div 10 div 10 div 10) @ [digit_char (n div 10 div 10 mod 10)]"
    using n2 digits.simps [of "n div 10 div 10"] by simp
  ultimately show ?thesis
    using digits_nonempty [of "n div 10 div 10 div 10"] by simp
qed

lemma strftime_four_digit_year: "1000 \<le> y \<Longrightarrow> strftime y m d = yyyy_mm_dd y m d"
proof -
  assume y: "1000 \<le> y"
  then have "1000 \<le> nat y"
    by simp
  then have "4 \<le> length (digits (nat y))"
    by (rule digits_length_4)
  with y have "zero_pad 4 y = str_int y"
    by (simp add: zero_pad_def str_int_def Let_def)
  then show ?thesis
    by (simp add: strftime_def yyyy_mm_dd_def)
qed

text \<open>
  C3, as the code has it. A datetime that carries a zone is formatted by its UTC day.
  With the offset \<open>off\<close> of its zone, strictly between minus and plus 24 hours, the UTC
  day is the day number of the local date, moved by \<open>day_shift\<close> (one day back when the
  wall clock minus the offset falls before midnight, one day on when it reaches the next
  midnight). When that day lies in the years 1000 to 9999 the result is its text
  \<open>yyyy-mm-dd\<close>; when it lies outside the years 1 to 9999 the conversion raises
  \<^verbatim>\<open>OverflowError\<close>. A datetime already in \<^verbatim>\<open>pytz.UTC\<close>, of the year 1000 or later, is
  formatted as it is. Nothing is said here of the years 1 to 999.
\<close>

theorem aware_datetime_formats_utc_day:
  assumes "valid_time d"
  shows
   "(\<forall>off. tzinfo d = Some (Zone off) \<and> - 86400000000 < off \<and> off < 86400000000 \<longrightarrow>
       (0 < utc_ordinal d off \<and> utc_ordinal d off \<le> MAXORDINAL \<and>
        1000 \<le> year (ord2ymd (utc_ordinal d off)) \<longrightarrow>
          to_date (Datetime d) =
            Inr (yyyy_mm_dd (year (ord2ymd (utc_ordinal d off)))
                   (month (ord2ymd (utc_ordinal d off)))
                   (day (ord2ymd (utc_ordinal d off))))) \<and>
       (\<not> (0 < utc_ordinal d off \<and> utc_ordinal d off \<le> MAXORDINAL) \<longrightarrow>
          to_date (Datetime d) = Inl OverflowError)) \<and>
    (tzinfo d = Some UTC \<and> 1000 \<le> year d \<longrightarrow>
       to_date (Datetime d) = Inr (yyyy_mm_dd (year d) (month d) (day d)))"
proof (intro conjI allI impI)
  fix off
  assume a: "tzinfo d = Some (Zone off) \<and> - 86400000000 < off \<and> off < 86400000000"
  assume r: "0 < utc_ordinal d off \<and> utc_ordinal d off \<le> MAXORDINAL \<and>
    1000 \<le> year (ord2ymd (utc_ordinal d off))"
  then obtain u where "astimezone_UTC d (Zone off) = Inr u"
    and "year u = year (ord2ymd (utc_ordinal d off))"
    and "month u = month (ord2ymd (utc_ordinal d off))"
    and "day u = day (ord2ymd (utc_ordinal d off))"
    using astimezone_zone [OF assms, of off] a by blast
  with r a show "to_date (Datetime d) =
      Inr (yyyy_mm_dd (year (ord2ymd (utc_ordinal d off)))
             (month (ord2ymd (utc_ordinal d off)))
             (day (ord2ymd (utc_ordinal d off))))"
    by (simp add: to_date_def strftime_four_digit_year)
next
  fix off
  assume a: "tzinfo d = Some (Zone off) \<and> - 86400000000 < off \<and> off < 86400000000"
  assume "\<not> (0 < utc_ordinal d off \<and> utc_ordinal d off \<le> MAXORDINAL)"
  then have "astimezone_UTC d (Zone off) = Inl OverflowError"
    using astimezone_zone_overflow [OF assms, of off] a by blast
  with a show "to_date (Datetime d) = Inl OverflowError"
    by (simp add: to_date_def)
next
  assume "tzinfo d = Some UTC \<and> 1000 \<le> year d"
  then show "to_date (Datetime d) = Inr (yyyy_mm_dd (year d) (month d) (day d))"
    by (simp add: to_date_def astimezone_UTC_def utcoffset_def strftime_four_digit_year)
qed

lemma utc_day_jan15_late:
  "0 < utc_ordinal (jan15_at 23 2) (timedelta 0 2 0 0 0) \<and>
   utc_ordinal (jan15_at 23 2) (timedelta 0 2 0 0 0) \<le> MAXORDINAL \<and>
   1000 \<le> year (ord2ymd (utc_ordinal (jan15_at 23 2) (timedelta 0 2 0 0 0))) \<and>
   yyyy_mm_dd (year (ord2ymd (utc_ordinal (jan15_at 23 2) (timedelta 0 2 0 0 0))))
     (month (ord2ymd (utc_ordinal (jan15_at 23 2) (timedelta 0 2 0 0 0))))
     (day (ord2ymd (utc_ordinal (jan15_at 23 2) (timedelta 0 2 0 0 0))))
   = ascii ''2020-01-15''"
  by code_simp

lemma utc_day_jan15_early:
  "0 < utc_ordinal (jan15_at 1 2) (timedelta 0 2 0 0 0) \<and>
   utc_ordinal (jan15_at 1 2) (timedelta 0 2 0 0 0) \<le> MAXORDINAL \<and>
   1000 \<le> year (ord2ymd (utc_ordinal (jan15_at 1 2) (timedelta 0 2 0 0 0))) \<and>
   yyyy_mm_dd (year (ord2ymd (utc_ordinal (jan15_at 1 2) (timedelta 0 2 0 0 0))))
     (month (ord2ymd (utc_ordinal (jan15_at 1 2) (timedelta 0 2 0 0 0))))
     (day (ord2ymd (utc_ordinal (jan15_at 1 2) (timedelta 0 2 0 0 0))))
   = ascii ''2020-01-14''"
  by code_simp

lemma utc_day_new_year:
  "0 < utc_ordinal new_years_eve_new_york (timedelta 0 (- 5) 0 0 0) \<and>
   utc_ordinal new_years_eve_new_york (timedelta 0 (- 5) 0 0 0) \<le> MAXORDINAL \<and>
   1000 \<le> year (ord2ymd (utc_ordinal new_years_eve_new_york (timedelta 0 (- 5) 0 0 0))) \<and>
   yyyy_mm_dd (year (ord2ymd (utc_ordinal new_years_eve_new_york (timedelta 0 (- 5) 0 0 0))))
     (month (ord2ymd (utc_ordinal new_years_eve_new_york (timedelta 0 (- 5) 0 0 0))))
     (day (ord2ymd (utc_ordinal new_years_eve_new_york (timedelta 0 (- 5) 0 0 0))))
   = ascii ''2021-01-01''"
  by code_simp

lemma utc_day_first_day_east:
  "\<not> (0 < utc_ordinal first_day_east (timedelta 0 2 0 0 0) \<and>
      utc_ordinal first_day_east (timedelta 0 2 0 0 0) \<le> MAXORDINAL)"
  by code_simp

theorem aware_datetime_witness:
  "valid_time (jan15_at 23 2) \<and> valid_time (jan15_at 1 2) \<and> valid_time new_years_eve_new_york \<and>
   valid_time first_day_east \<and>
   to_date (Datetime (jan15_at 23 2)) = Inr (ascii ''2020-01-15'') \<and>
   to_date (Datetime (jan15_at 1 2)) = Inr (ascii ''2020-01-14'') \<and>
   to_date (Datetime new_years_eve_new_york) = Inr (ascii ''2021-01-01'') \<and>
   to_date (Datetime first_day_east) = Inl OverflowError"
proof -
  have v1: "valid_time (jan15_at 23 2)" and v2: "valid_time (jan15_at 1 2)"
    by (simp_all add: valid_time_def jan15_at_def)
  have v3: "valid_time new_years_eve_new_york"
    by (simp add: valid_time_def new_years_eve_new_york_def)
  have v4: "valid_time first_day_east"
    by (simp add: valid_time_def first_day_east_def)
  have z1: "tzinfo (jan15_at 23 2) = Some (Zone (timedelta 0 2 0 0 0))"
    and z2: "tzinfo (jan15_at 1 2) = Some (Zone (timedelta 0 2 0 0 0))"
    by (simp_all add: jan15_at_def)
  have z3: "tzinfo new_years_eve_new_york = Some (Zone (timedelta 0 (- 5) 0 0 0))"
    by (simp add: new_years_eve_new_york_def)
  have z4: "tzinfo first_day_east = Some (Zone (timedelta 0 2 0 0 0))"
    by (simp add: first_day_east_def)
  have b: "- 86400000000 < timedelta 0 2 0 0 0 \<and> timedelta 0 2 0 0 0 < 86400000000"
    and b': "- 86400000000 < timedelta 0 (- 5) 0 0 0 \<and> timedelta 0 (- 5) 0 0 0 < 86400000000"
    by (simp_all add: timedelta_def)
  have "to_date (Datetime (jan15_at 23 2)) = Inr (ascii ''2020-01-15'')"
    using aware_datetime_formats_utc_day [OF v1] z1 b utc_day_jan15_late by metis
  moreover have "to_date (Datetime (jan15_at 1 2)) = Inr (ascii ''2020-01-14'')"
    using aware_datetime_formats_utc_day [OF v2] z2 b utc_day_jan15_early by metis
  moreover have "to_date (Datetime new_years_eve_new_york) = Inr (ascii ''2021-01-01'')"
    using aware_datetime_formats_utc_day [OF v3] z3 b' utc_day_new_year by metis
  moreover have "to_date (Datetime first_day_east) = Inl OverflowError"
    using aware_datetime_formats_utc_day [OF v4] z4 b utc_day_first_day_east by metis
  ultimately show ?thesis
    using v1 v2 v3 v4 by simp
qed

text \<open>
  C3 as the specification words it, for every datetime with a zone, fails at the edge of
  the calendar: the first instant of the year 1 on a clock two hours east of UTC has no
  UTC day, and the coercion raises \<^verbatim>\<open>OverflowError\<close> where a text was promised.
\<close>

theorem first_instant_east_of_utc_overflows:
  "tzinfo first_day_east = Some (Zone (timedelta 0 2 0 0 0)) \<and>
   to_date (Datetime first_day_east) = Inl OverflowError"
  by code_simp

section \<open>Date coercion of strings\<close>

text \<open>The ASCII digits are decimal digits, with their usual values.\<close>

lemma digit_cases:
  "is_digit c \<Longrightarrow>
     c = 48 \<or> c = 49 \<or> c = 50 \<or> c = 51 \<or> c = 52 \<or> c = 53 \<or> c = 54 \<or> c = 55 \<or> c = 56 \<or>
     c = 57"
  unfolding is_digit_def by arith

lemma digit_val_range: "is_digit c \<Longrightarrow> 0 \<le> digit_val c \<and> digit_val c \<le> 9"
  by (simp add: is_digit_def digit_val_def)

lemma digit_decimal_zero: "is_digit c \<Longrightarrow> decimal_zero c = Some 48"
  by (simp add: is_digit_def decimal_zero_def DECIMAL_ZEROS_def)

lemma digit_is_decimal: "is_digit c \<Longrightarrow> is_decimal c"
  by (simp add: is_decimal_def digit_decimal_zero)

lemma digit_decimal_value: "is_digit c \<Longrightarrow> decimal_value c = digit_val c"
  by (simp add: decimal_value_def digit_decimal_zero digit_val_def)

lemma hyphen_not_decimal: "\<not> is_decimal hyphen"
  unfolding hyphen_def by code_simp

lemma decimal_not_hyphen: "is_decimal c \<Longrightarrow> c \<noteq> hyphen"
  using hyphen_not_decimal by blast

lemma digit_not_hyphen: "is_digit c \<Longrightarrow> c \<noteq> 45"
  by (simp add: is_digit_def)

lemma digit_not_blank: "is_digit c \<Longrightarrow> c \<noteq> 32"
  by (simp add: is_digit_def)

lemma ascii_digit: "ch \<in> set ''0123456789'' \<Longrightarrow> is_digit (of_char ch)"
  by (auto simp: is_digit_def)

subsection \<open>A string of the form \<open>yyyy-mm-dd\<close>\<close>

lemma rematch_digit: "is_digit c \<Longrightarrow> rematch re_digit (c # r) = [r]"
  by (simp add: re_digit_def digit_is_decimal)

lemma rematch_Y:
  "is_digit a \<Longrightarrow> is_digit b \<Longrightarrow> is_digit c \<Longrightarrow> is_digit e \<Longrightarrow>
     rematch re_Y (a # b # c # e # r) = [r]"
  by (simp add: re_Y_def rematch_digit)

lemma rematch_hyphen: "rematch (Cls ''-'') (45 # r) = [r]"
  by (simp add: ascii_def)

lemma rematch_hyphen_digit: "is_digit c \<Longrightarrow> rematch (Cls ''-'') (c # r) = []"
  by (auto simp: ascii_def is_digit_def)

text \<open>What the month group and the day group do with two digits.\<close>

lemma rematch_m_two_digits:
  assumes "is_digit m1" and "is_digit m2"
  shows "rematch re_m (m1 # m2 # r)
     = (if 1 \<le> 10 * digit_val m1 + digit_val m2 \<and> 10 * digit_val m1 + digit_val m2 \<le> 12
        then [r] else []) @ (if m1 = 48 then [] else [m2 # r])"
  using digit_cases [OF assms(1)] digit_cases [OF assms(2)]
  by (elim disjE; simp add: re_m_def re_1to9_def digit_val_def ascii_def)

lemma rematch_d_two_digits:
  assumes "is_digit d1" and "is_digit d2"
  shows "rematch re_d [d1, d2]
     = (if 1 \<le> 10 * digit_val d1 + digit_val d2 \<and> 10 * digit_val d1 + digit_val d2 \<le> 31
        then [ [] ] else []) @ (if d1 = 48 then [] else [ [d2] ])"
  using digit_cases [OF assms(1)] digit_cases [OF assms(2)] digit_is_decimal [OF assms(2)]
  by (elim disjE; simp add: re_d_def re_1to9_def re_digit_def digit_val_def ascii_def)

lemma int_of_group_two: "is_digit a \<Longrightarrow> is_digit b \<Longrightarrow>
  int_of_group [a, b] = 10 * digit_val a + digit_val b"
  by (simp add: int_of_group_def digit_decimal_value digit_not_blank)

lemma int_of_group_four:
  "is_digit a \<Longrightarrow> is_digit b \<Longrightarrow> is_digit c \<Longrightarrow> is_digit e \<Longrightarrow>
     int_of_group [a, b, c, e]
       = 1000 * digit_val a + 100 * digit_val b + 10 * digit_val c + digit_val e"
  by (simp add: int_of_group_def digit_decimal_value digit_not_blank)

lemma days_in_month_le_31: "1 \<le> m \<Longrightarrow> m \<le> 12 \<Longrightarrow> days_in_month y m \<le> 31"
proof -
  assume "1 \<le> m" and "m \<le> 12"
  then have "m = 1 \<or> m = 2 \<or> m = 3 \<or> m = 4 \<or> m = 5 \<or> m = 6 \<or> m = 7 \<or> m = 8 \<or> m = 9 \<or>
             m = 10 \<or> m = 11 \<or> m = 12"
    by arith
  then show ?thesis
    by (elim disjE; simp add: days_in_month_def DAYS_IN_MONTH_def)
qed

lemma matches_ymd_strict:
  assumes "is_digit y1" "is_digit y2" "is_digit y3" "is_digit y4"
    and "is_digit m1" "is_digit m2" and "is_digit d1" "is_digit d2"
  shows "matches_ymd [y1, y2, y3, y4, 45, m1, m2, 45, d1, d2]
     = (if 1 \<le> 10 * digit_val m1 + digit_val m2 \<and> 10 * digit_val m1 + digit_val m2 \<le> 12
        then (if 1 \<le> 10 * digit_val d1 + digit_val d2 \<and> 10 * digit_val d1 + digit_val d2 \<le> 31
              then [([y1, y2, y3, y4], [m1, m2], [d1, d2], [])] else [])
             @ (if d1 = 48 then [] else [([y1, y2, y3, y4], [m1, m2], [d1], [d2])])
        else [])"
  using assms
  by (simp add: matches_ymd_def rematch_Y rematch_m_two_digits rematch_d_two_digits
      rematch_hyphen rematch_hyphen_digit consumed_def del: rematch.simps)

lemma strptime_strict:
  assumes "is_digit y1" "is_digit y2" "is_digit y3" "is_digit y4"
    and "is_digit m1" "is_digit m2" and "is_digit d1" "is_digit d2"
  shows "strptime [y1, y2, y3, y4, 45, m1, m2, 45, d1, d2]
     = (if real_date (1000 * digit_val y1 + 100 * digit_val y2 + 10 * digit_val y3 + digit_val y4)
             (10 * digit_val m1 + digit_val m2) (10 * digit_val d1 + digit_val d2)
        then Inr \<lparr>year = 1000 * digit_val y1 + 100 * digit_val y2 + 10 * digit_val y3
                          + digit_val y4,
                  month = 10 * digit_val m1 + digit_val m2,
                  day = 10 * digit_val d1 + digit_val d2\<rparr>
        else Inl ValueError)"
proof -
  let ?y = "1000 * digit_val y1 + 100 * digit_val y2 + 10 * digit_val y3 + digit_val y4"
  let ?m = "10 * digit_val m1 + digit_val m2"
  let ?d = "10 * digit_val d1 + digit_val d2"
  have y: "?y \<le> 9999"
    using digit_val_range [OF assms(1)] digit_val_range [OF assms(2)]
      digit_val_range [OF assms(3)] digit_val_range [OF assms(4)] by simp
  have dim: "1 \<le> ?m \<Longrightarrow> ?m \<le> 12 \<Longrightarrow> days_in_month ?y ?m \<le> 31"
    by (rule days_in_month_le_31)
  show ?thesis
  proof (cases "1 \<le> ?m \<and> ?m \<le> 12")
    case False
    then show ?thesis
      using assms by (auto simp: strptime_def matches_ymd_strict real_date_def)
  next
    case month: True
    show ?thesis
    proof (cases "1 \<le> ?d \<and> ?d \<le> 31")
      case True
      with month y show ?thesis
        using assms
        by (simp add: strptime_def matches_ymd_strict real_date_def check_date_fields_def
            int_of_group_two int_of_group_four)
    next
      case False
      then have "\<not> real_date ?y ?m ?d"
        using dim month by (auto simp: real_date_def)
      moreover have "matches_ymd [y1, y2, y3, y4, 45, m1, m2, 45, d1, d2]
          = (if d1 = 48 then [] else [([y1, y2, y3, y4], [m1, m2], [d1], [d2])])"
        using False month assms by (subst matches_ymd_strict) simp_all
      ultimately show ?thesis
        by (simp add: strptime_def)
    qed
  qed
qed

lemma to_date_strict:
  assumes "is_yyyy_mm_dd s"
  shows "to_date (Str s)
     = (if real_date (year_of s) (month_of s) (day_of s) then Inr s else Inl ValueError)"
proof -
  from assms obtain y1 y2 y3 y4 m1 m2 d1 d2 where
    s: "s = [y1, y2, y3, y4, 45, m1, m2, 45, d1, d2]"
    and dg: "is_digit y1" "is_digit y2" "is_digit y3" "is_digit y4"
      "is_digit m1" "is_digit m2" "is_digit d1" "is_digit d2"
    by (auto elim!: is_yyyy_mm_dd.elims(2) simp: hyphen_def)
  show ?thesis
    unfolding s
    by (simp add: to_date_def strptime_strict [OF dg] year_of_def month_of_def day_of_def)
qed

subsection \<open>What a successful match says about the string\<close>

lemma in_rematch_Cls:
  "r \<in> set (rematch (Cls cs) s) \<longleftrightarrow> (\<exists>c. s = c # r \<and> c \<in> set (ascii cs))"
  by (cases s) auto

lemma in_rematch_Digit: "r \<in> set (rematch Digit s) \<longleftrightarrow> (\<exists>c. s = c # r \<and> is_decimal c)"
  by (cases s) auto

lemma in_rematch_Cat:
  "r \<in> set (rematch (Cat a b) s) \<longleftrightarrow> (\<exists>t \<in> set (rematch a s). r \<in> set (rematch b t))"
  by auto

lemma in_rematch_Alt:
  "r \<in> set (rematch (Alt a b) s) \<longleftrightarrow> r \<in> set (rematch a s) \<or> r \<in> set (rematch b s)"
  by simp

lemma in_rematch_digit: "r \<in> set (rematch re_digit s) \<Longrightarrow> \<exists>c. s = c # r \<and> is_decimal c"
  unfolding re_digit_def in_rematch_Digit .

lemma in_rematch_Y:
  assumes "r \<in> set (rematch re_Y s)"
  shows "\<exists>a b c e. s = a # b # c # e # r \<and>
           is_decimal a \<and> is_decimal b \<and> is_decimal c \<and> is_decimal e"
proof -
  from assms obtain t1 t2 t3 where "t1 \<in> set (rematch re_digit s)"
    "t2 \<in> set (rematch re_digit t1)" "t3 \<in> set (rematch re_digit t2)"
    "r \<in> set (rematch re_digit t3)"
    unfolding re_Y_def in_rematch_Cat by blast
  then show ?thesis
    by (blast dest: in_rematch_digit)
qed

text \<open>The ASCII classes of the pattern.\<close>

lemma cls_1: "c \<in> set (ascii ''1'') \<Longrightarrow> c = 49"
  by (simp add: ascii_def)

lemma cls_0: "c \<in> set (ascii ''0'') \<Longrightarrow> c = 48"
  by (simp add: ascii_def)

lemma cls_3: "c \<in> set (ascii ''3'') \<Longrightarrow> c = 51"
  by (simp add: ascii_def)

lemma cls_blank: "c \<in> set (ascii '' '') \<Longrightarrow> c = blank"
  by (simp add: ascii_def blank_def)

lemma cls_012: "c \<in> set (ascii ''012'') \<Longrightarrow> 48 \<le> c \<and> c \<le> 50"
  by (auto simp: ascii_def)

lemma cls_01: "c \<in> set (ascii ''01'') \<Longrightarrow> 48 \<le> c \<and> c \<le> 49"
  by (auto simp: ascii_def)

lemma cls_12: "c \<in> set (ascii ''12'') \<Longrightarrow> c = 49 \<or> c = 50"
  by (auto simp: ascii_def)

lemma cls_1to9: "c \<in> set (ascii ''123456789'') \<Longrightarrow> is_nonzero_digit c"
  by (auto simp: ascii_def is_nonzero_digit_def)

lemma in_rematch_1to9: "r \<in> set (rematch re_1to9 s) \<Longrightarrow> \<exists>c. s = c # r \<and> is_nonzero_digit c"
  unfolding re_1to9_def in_rematch_Cls using cls_1to9 by blast

lemma in_Cls_then:
  assumes "r \<in> set (rematch (Cat (Cls cs) b) s)"
  shows "\<exists>x t. s = x # t \<and> x \<in> set (ascii cs) \<and> r \<in> set (rematch b t)"
proof -
  from assms obtain t where t: "t \<in> set (rematch (Cls cs) s)" and r: "r \<in> set (rematch b t)"
    unfolding in_rematch_Cat by blast
  from t obtain x where "s = x # t" "x \<in> set (ascii cs)"
    unfolding in_rematch_Cls by blast
  with r show ?thesis
    by blast
qed

lemma in_rematch_m: "r \<in> set (rematch re_m s) \<Longrightarrow> \<exists>mm. s = mm @ r \<and> month_field mm"
proof -
  assume "r \<in> set (rematch re_m s)"
  then consider "r \<in> set (rematch (Cat (Cls ''1'') (Cls ''012'')) s)"
    | "r \<in> set (rematch (Cat (Cls ''0'') re_1to9) s)"
    | "r \<in> set (rematch re_1to9 s)"
    unfolding re_m_def in_rematch_Alt by blast
  then consider a b where "s = a # b # r" "month_field [a, b]"
    | a where "s = a # r" "month_field [a]"
  proof cases
    case 1
    then obtain a b where "s = a # b # r" "a = 49" "48 \<le> b \<and> b \<le> 50"
      using in_Cls_then [OF 1] cls_1 cls_012 unfolding in_rematch_Cls by blast
    then show ?thesis using that(1) [of a b] by simp
  next
    case 2
    then obtain a b where "s = a # b # r" "a = 48" "is_nonzero_digit b"
      using in_Cls_then [OF 2] cls_0 in_rematch_1to9 by blast
    then show ?thesis using that(1) [of a b] by simp
  next
    case 3
    then obtain a where "s = a # r" "is_nonzero_digit a"
      using in_rematch_1to9 by blast
    then show ?thesis using that(2) [of a] by simp
  qed
  then show ?thesis
  proof cases
    case 1
    then have "s = [a, b] @ r \<and> month_field [a, b]" by simp
    then show ?thesis by blast
  next
    case 2
    then have "s = [a] @ r \<and> month_field [a]" by simp
    then show ?thesis by blast
  qed
qed

lemma in_rematch_d: "r \<in> set (rematch re_d s) \<Longrightarrow> \<exists>dd. s = dd @ r \<and> day_field dd"
proof -
  assume "r \<in> set (rematch re_d s)"
  then consider "r \<in> set (rematch (Cat (Cls ''3'') (Cls ''01'')) s)"
    | "r \<in> set (rematch (Cat (Cls ''12'') re_digit) s)"
    | "r \<in> set (rematch (Cat (Cls ''0'') re_1to9) s)"
    | "r \<in> set (rematch re_1to9 s)"
    | "r \<in> set (rematch (Cat (Cls '' '') re_1to9) s)"
    unfolding re_d_def in_rematch_Alt by blast
  then consider a b where "s = a # b # r" "day_field [a, b]"
    | a where "s = a # r" "day_field [a]"
  proof cases
    case 1
    then obtain a b where "s = a # b # r" "a = 51" "48 \<le> b \<and> b \<le> 49"
      using in_Cls_then [OF 1] cls_3 cls_01 unfolding in_rematch_Cls by blast
    then show ?thesis using that(1) [of a b] by simp
  next
    case 2
    then obtain a b where "s = a # b # r" "a = 49 \<or> a = 50" "is_decimal b"
      using in_Cls_then [OF 2] cls_12 in_rematch_digit by blast
    then show ?thesis using that(1) [of a b] by auto
  next
    case 3
    then obtain a b where "s = a # b # r" "a = 48" "is_nonzero_digit b"
      using in_Cls_then [OF 3] cls_0 in_rematch_1to9 by blast
    then show ?thesis using that(1) [of a b] by simp
  next
    case 4
    then obtain a where "s = a # r" "is_nonzero_digit a"
      using in_rematch_1to9 by blast
    then show ?thesis using that(2) [of a] by simp
  next
    case 5
    then obtain a b where "s = a # b # r" "a = blank" "is_nonzero_digit b"
      using in_Cls_then [OF 5] cls_blank in_rematch_1to9 by blast
    then show ?thesis using that(1) [of a b] by simp
  qed
  then show ?thesis
  proof cases
    case 1
    then have "s = [a, b] @ r \<and> day_field [a, b]" by simp
    then show ?thesis by blast
  next
    case 2
    then have "s = [a] @ r \<and> day_field [a]" by simp
    then show ?thesis by blast
  qed
qed

lemma in_rematch_hyphen: "r \<in> set (rematch (Cls ''-'') s) \<Longrightarrow> s = hyphen # r"
  by (auto simp: in_rematch_Cls ascii_def hyphen_def)

lemma consumed_prefix: "consumed (xs @ r) r = xs"
  by (simp add: consumed_def)

lemma matches_ymd_shape:
  assumes "(Y, m, d, rest) \<in> set (matches_ymd s)"
  shows "s = Y @ hyphen # m @ hyphen # d @ rest \<and> length Y = 4 \<and> list_all is_decimal Y \<and>
         month_field m \<and> day_field d"
proof -
  from assms obtain r1 r2 r3 r4 where r: "r1 \<in> set (rematch re_Y s)"
    "r2 \<in> set (rematch (Cls ''-'') r1)" "r3 \<in> set (rematch re_m r2)"
    "r4 \<in> set (rematch (Cls ''-'') r3)" "rest \<in> set (rematch re_d r4)"
    and g: "Y = consumed s r1" "m = consumed r2 r3" "d = consumed r4 rest"
    unfolding matches_ymd_def by auto
  from r(1) obtain a b c e where y: "s = [a, b, c, e] @ r1"
    "is_decimal a" "is_decimal b" "is_decimal c" "is_decimal e"
    using in_rematch_Y [of r1 s] by auto
  from r(2) r(4) have h: "r1 = hyphen # r2" "r3 = hyphen # r4"
    by (simp_all add: in_rematch_hyphen)
  from r(3) obtain mm where mm: "r2 = mm @ r3" "month_field mm"
    using in_rematch_m by blast
  from r(5) obtain dd where dd: "r4 = dd @ rest" "day_field dd"
    using in_rematch_d by blast
  have "Y = [a, b, c, e]"
    unfolding g(1) y(1) by (rule consumed_prefix)
  moreover have "m = mm"
    unfolding g(2) mm(1) by (rule consumed_prefix)
  moreover have "d = dd"
    unfolding g(3) dd(1) by (rule consumed_prefix)
  ultimately show ?thesis
    using y h mm dd by simp
qed

lemma month_field_no_hyphen: "month_field mm \<Longrightarrow> c \<in> set mm \<Longrightarrow> c \<noteq> hyphen"
  by (cases mm rule: month_field.cases) (auto simp: hyphen_def is_nonzero_digit_def)

lemma check_date_fields_real: "check_date_fields y m d = Inr x \<Longrightarrow> real_date y m d"
  by (simp add: check_date_fields_def real_date_def split: if_splits)

lemma strptime_ok_loose:
  assumes "strptime s = Inr x"
  shows "loose_date s"
proof -
  from assms obtain Y m d ms where ms: "matches_ymd s = (Y, m, d, []) # ms"
    and ok: "check_date_fields (int_of_group Y) (int_of_group m) (int_of_group d) = Inr x"
    by (auto simp: strptime_def split: list.splits if_splits)
  from ms have "(Y, m, d, []) \<in> set (matches_ymd s)"
    by simp
  then have s: "s = Y @ hyphen # m @ hyphen # d" and Y: "length Y = 4" "list_all is_decimal Y"
    and f: "month_field m" "day_field d"
    using matches_ymd_shape [of Y m d "[]" s] by simp_all
  have t4: "take 4 s = Y" and d4: "drop 4 s = hyphen # m @ hyphen # d"
    and d5: "drop 5 s = m @ hyphen # d"
    using Y(1) by (simp_all add: s)
  have mt: "month_text s = m"
    using month_field_no_hyphen [OF f(1)] by (simp add: month_text_def d5 takeWhile_append2)
  have dw: "dropWhile (\<lambda>c. c \<noteq> hyphen) (drop 5 s) = hyphen # d"
    using month_field_no_hyphen [OF f(1)] by (simp add: d5 dropWhile_append2)
  then have dt: "day_text s = d"
    by (simp add: day_text_def)
  have "ymd_like s"
    unfolding ymd_like_def t4 d4 mt dt dw using Y f by simp
  moreover have "real_date (int_of_group (take 4 s)) (int_of_group (month_text s))
      (int_of_group (day_text s))"
    unfolding t4 mt dt using ok by (rule check_date_fields_real)
  ultimately show ?thesis
    by (simp add: loose_date_def)
qed

lemma strptime_error: "strptime s = Inl e \<Longrightarrow> e = ValueError"
  by (auto simp: strptime_def check_date_fields_def split: list.splits if_splits)

text \<open>
  C2, as the code has it. A string is never reformatted: the coercion returns it as it
  is or raises \<^verbatim>\<open>ValueError\<close>. A string of the form \<open>yyyy-mm-dd\<close> is returned unchanged
  when it names a date of the calendar, and raises \<^verbatim>\<open>ValueError\<close> when it does not. A
  string that is not of that form raises \<^verbatim>\<open>ValueError\<close>, unless it is a looser spelling of
  a date of the calendar (\<open>loose_date\<close>: a year in the digits of another script, a month or
  a day written with one digit, a day written as a blank and a digit): of those nothing is
  said here.
\<close>

theorem string_dates_pass_unchanged_or_fail:
  "(to_date (Str s) = Inr s \<or> to_date (Str s) = Inl ValueError) \<and>
   (is_yyyy_mm_dd s \<longrightarrow>
      to_date (Str s)
        = (if real_date (year_of s) (month_of s) (day_of s) then Inr s else Inl ValueError)) \<and>
   (\<not> is_yyyy_mm_dd s \<and> \<not> loose_date s \<longrightarrow> to_date (Str s) = Inl ValueError)"
proof (intro conjI impI)
  show "to_date (Str s) = Inr s \<or> to_date (Str s) = Inl ValueError"
    by (cases "strptime s") (auto simp: to_date_def dest: strptime_error)
next
  assume "is_yyyy_mm_dd s"
  then show "to_date (Str s)
     = (if real_date (year_of s) (month_of s) (day_of s) then Inr s else Inl ValueError)"
    by (rule to_date_strict)
next
  assume "\<not> is_yyyy_mm_dd s \<and> \<not> loose_date s"
  then have "\<forall>x. strptime s \<noteq> Inr x"
    using strptime_ok_loose by blast
  then show "to_date (Str s) = Inl ValueError"
    by (cases "strptime s") (auto simp: to_date_def dest: strptime_error)
qed

theorem string_dates_witness:
  "is_yyyy_mm_dd (ascii ''2020-01-15'') \<and>
   to_date (Str (ascii ''2020-01-15'')) = Inr (ascii ''2020-01-15'') \<and>
   is_yyyy_mm_dd (ascii ''2020-13-01'') \<and>
   to_date (Str (ascii ''2020-13-01'')) = Inl ValueError \<and>
   \<not> is_yyyy_mm_dd (ascii ''15-01-2020'') \<and> \<not> loose_date (ascii ''15-01-2020'') \<and>
   to_date (Str (ascii ''15-01-2020'')) = Inl ValueError \<and>
   \<not> is_yyyy_mm_dd (ascii ''2020-1-32'') \<and> \<not> loose_date (ascii ''2020-1-32'') \<and>
   to_date (Str (ascii ''2020-1-32'')) = Inl ValueError \<and>
   \<not> is_yyyy_mm_dd fullwidth_month \<and> \<not> loose_date fullwidth_month \<and>
   to_date (Str fullwidth_month) = Inl ValueError"
proof -
  have a: "is_yyyy_mm_dd (ascii ''2020-01-15'')" and b: "is_yyyy_mm_dd (ascii ''2020-13-01'')"
    by code_simp+
  have ra: "real_date (year_of (ascii ''2020-01-15'')) (month_of (ascii ''2020-01-15''))
      (day_of (ascii ''2020-01-15''))"
    by code_simp
  have rb: "\<not> real_date (year_of (ascii ''2020-13-01'')) (month_of (ascii ''2020-13-01''))
      (day_of (ascii ''2020-13-01''))"
    by code_simp
  have c: "\<not> is_yyyy_mm_dd (ascii ''15-01-2020'') \<and> \<not> loose_date (ascii ''15-01-2020'')"
    by code_simp
  have d: "\<not> is_yyyy_mm_dd (ascii ''2020-1-32'') \<and> \<not> loose_date (ascii ''2020-1-32'')"
    by code_simp
  have e: "\<not> is_yyyy_mm_dd fullwidth_month \<and> \<not> loose_date fullwidth_month"
    by code_simp
  show ?thesis
    using string_dates_pass_unchanged_or_fail [of "ascii ''2020-01-15''"]
      string_dates_pass_unchanged_or_fail [of "ascii ''2020-13-01''"]
      string_dates_pass_unchanged_or_fail [of "ascii ''15-01-2020''"]
      string_dates_pass_unchanged_or_fail [of "ascii ''2020-1-32''"]
      string_dates_pass_unchanged_or_fail [of fullwidth_month] a b c d e ra rb
    by simp
qed

text \<open>
  C2 as the specification words it fails on a string that has the form \<open>yyyy-mm-dd\<close> and
  names no date of the calendar: it is not returned, the coercion raises \<^verbatim>\<open>ValueError\<close>.
\<close>

theorem february_30_has_the_form_and_fails:
  "is_yyyy_mm_dd (ascii ''2020-02-30'') \<and>
   to_date (Str (ascii ''2020-02-30'')) = Inl ValueError"
  by code_simp

text \<open>
  Looser spellings, as the library treats them: a month and a day written with one digit,
  a day written with a blank, a year in fullwidth digits and a day whose second digit is a
  fullwidth one are all returned as they are.
\<close>

lemma looser_spellings:
  "loose_date (ascii ''2020-1-5'') \<and>
   to_date (Str (ascii ''2020-1-5'')) = Inr (ascii ''2020-1-5'') \<and>
   loose_date (ascii ''2020-01- 5'') \<and>
   to_date (Str (ascii ''2020-01- 5'')) = Inr (ascii ''2020-01- 5'') \<and>
   loose_date fullwidth_year \<and> to_date (Str fullwidth_year) = Inr fullwidth_year \<and>
   loose_date fullwidth_day \<and> to_date (Str fullwidth_day) = Inr fullwidth_day"
  by code_simp

end
